theory Spec2Isabelle
  imports Complex_Main
begin

section \<open>Conventions of the embedding\<close>

text \<open>
  The program is the hybrid-electric aircraft sizing code: \<^verbatim>\<open>config_loader.py\<close>,
  \<^verbatim>\<open>powertrain.py\<close>, \<^verbatim>\<open>dual_motor_powertrain.py\<close>, \<^verbatim>\<open>atmosphere.py\<close>,
  \<^verbatim>\<open>constraints.py\<close>, \<^verbatim>\<open>mission.py\<close> and \<^verbatim>\<open>aircraft.py\<close>.

  \<^item> Python floats (and the JSON numbers mixed with them) are modelled as \<^typ>\<open>real\<close>:
    arithmetic is exact; rounding and overflow are not modelled, so a value of the model
    stands for a finite float. \<^verbatim>\<open>x ** 2\<close> is \<open>x\<^sup>2\<close>, \<^verbatim>\<open>x ** y\<close> with a float exponent is
    \<open>x powr y\<close>, and \<^verbatim>\<open>np.sqrt\<close>, \<^verbatim>\<open>np.exp\<close>, \<^verbatim>\<open>np.sin\<close>, \<^verbatim>\<open>np.cos\<close>, \<^verbatim>\<open>np.tan\<close>,
    \<^verbatim>\<open>np.arctan\<close>, \<^verbatim>\<open>np.pi\<close> are the functions of the same name on the reals (\<^verbatim>\<open>np.sqrt\<close> of
    a negative number is nan, which the reals do not have).
  \<^item> Division by zero. In \<^verbatim>\<open>powertrain.py\<close>, \<^verbatim>\<open>dual_motor_powertrain.py\<close>,
    \<^verbatim>\<open>constraints.py\<close> and in \<^verbatim>\<open>aircraft.py\<close> before the mission is flown, a quotient with a
    denominator that is not a literal is \<open>py_div\<close>: it raises \<^verbatim>\<open>ZeroDivisionError\<close> on a zero
    denominator, as Python does on its own numbers. (Where an operand happens to be a NumPy
    scalar the source yields inf or nan with a warning instead; in both cases there is no
    finite quotient, and the model has none.)
    The statistics computed after the mission (\<^verbatim>\<open>error\<close>, \<^verbatim>\<open>WS_psf\<close>, the three weight
    fractions and \<^verbatim>\<open>PREE\<close>) always divide NumPy scalars, because the mission totals contain
    the landing time, which comes from \<^verbatim>\<open>np.tan\<close>: a zero denominator there raises nothing
    and gives inf or nan. These quotients are \<open>np_div\<close>, of type \<^typ>\<open>real option\<close>, where
    \<open>None\<close> stands for a float that is not finite.
    Inside the segment routines of \<^verbatim>\<open>mission.py\<close> the operands are NumPy scalars from the
    first \<^verbatim>\<open>np.sqrt\<close> on, and a zero denominator again gives inf or nan. The reals have no
    such values: there the model keeps HOL's total quotient, and what is proved about the
    mission simulation is its bookkeeping (order, running weight, totals, the zero fuel
    rate of a class), never a particular value of such a quotient.
  \<^item> A value read from the JSON configuration is a \<open>pyval\<close>: it may be \<^verbatim>\<open>None\<close> (the
    default of \<^verbatim>\<open>ConfigLoader.get\<close> for a missing key). Arithmetic, comparison and
    float formatting on a value that is not a number raise \<^verbatim>\<open>TypeError\<close>, as in Python;
    the product of an integer and a string or a list is a repetition, as in Python.
  \<^item> Exceptions are values: a function that can raise returns \<open>error + 'a\<close>, with
    \<open>Inl\<close> the exception. An exception inside a function ends the whole call, so the
    state mutated up to that point is not returned.
  \<^item> Objects are records and mutation is explicit state passing. Printing is not
    modelled, except where evaluating or formatting a printed value can raise.
  \<^item> Configuration values are converted with \<open>num\<close> where the source first uses them in
    arithmetic, so that a \<^verbatim>\<open>TypeError\<close> and a \<^verbatim>\<open>ZeroDivisionError\<close> come in the order of the
    source. In the segment routines, where only \<^verbatim>\<open>TypeError\<close> can arise between two calls,
    the conversions of a block of arithmetic stand at the start of the block.
\<close>

section \<open>Exceptions and Python values\<close>

datatype error = TypeError | ValueError | KeyError | AttributeError | UnboundLocalError
  | ZeroDivisionError

type_synonym 'a res = "error + 'a"

definition bindE :: "'a res \<Rightarrow> ('a \<Rightarrow> 'b res) \<Rightarrow> 'b res" where
  "bindE m f = (case m of Inl e \<Rightarrow> Inl e | Inr x \<Rightarrow> f x)"

datatype pyval =
    PNone
  | PNum real
  | PInt int
  | PBool bool
  | PStr string
  | PList "pyval list"
  | PDict "(string \<times> pyval) list"

text \<open>\<open>PNum\<close> is a float and \<open>PInt\<close> an integer. An operand of float arithmetic or of a
  comparison with a number: a \<^verbatim>\<open>bool\<close> is the integer 0 or 1 in Python; \<^verbatim>\<open>None\<close>, strings
  and containers raise \<^verbatim>\<open>TypeError\<close>.\<close>

fun num :: "pyval \<Rightarrow> real res" where
  "num (PNum x) = Inr x"
| "num (PInt i) = Inr (of_int i)"
| "num (PBool b) = Inr (if b then 1 else 0)"
| "num v = Inl TypeError"

text \<open>\<^verbatim>\<open>x / y\<close> on Python numbers: \<^verbatim>\<open>ZeroDivisionError\<close> when \<open>y\<close> is zero.\<close>

definition py_div :: "real \<Rightarrow> real \<Rightarrow> real res" where
  "py_div x y = (if y = 0 then Inl ZeroDivisionError else Inr (x / y))"

text \<open>\<^verbatim>\<open>x / v\<close> where \<open>v\<close> is a configuration value: \<^verbatim>\<open>TypeError\<close> when \<open>v\<close> is not a number,
  \<^verbatim>\<open>ZeroDivisionError\<close> when it is zero.\<close>

definition div_by :: "real \<Rightarrow> pyval \<Rightarrow> real res" where
  "div_by x v = bindE (num v) (\<lambda>y. py_div x y)"

text \<open>\<^verbatim>\<open>x / y\<close> where an operand is a NumPy scalar: no exception; with \<open>y\<close> zero the result is
  inf or nan, rendered as \<open>None\<close>.\<close>

definition np_div :: "real \<Rightarrow> real \<Rightarrow> real option" where
  "np_div x y = (if y = 0 then None else Some (x / y))"

text \<open>\<^verbatim>\<open>a * b\<close> on Python values. Two integers (a \<^verbatim>\<open>bool\<close> counts as one) give an integer,
  two numbers otherwise a float; an integer and a string or list, in either order, give
  the repetition (empty for a count below one); everything else raises \<^verbatim>\<open>TypeError\<close>.\<close>

fun as_int :: "pyval \<Rightarrow> int option" where
  "as_int (PInt i) = Some i"
| "as_int (PBool b) = Some (if b then 1 else 0)"
| "as_int v = None"

fun py_repeat :: "int \<Rightarrow> pyval \<Rightarrow> pyval res" where
  "py_repeat i (PStr s) = Inr (PStr (concat (replicate (nat i) s)))"
| "py_repeat i (PList xs) = Inr (PList (concat (replicate (nat i) xs)))"
| "py_repeat i v = Inl TypeError"

definition py_mul :: "pyval \<Rightarrow> pyval \<Rightarrow> pyval res" where
  "py_mul a b =
     (case (as_int a, as_int b) of
        (Some i, Some j) \<Rightarrow> Inr (PInt (i * j))
      | (Some i, None) \<Rightarrow> (case num b of Inr y \<Rightarrow> Inr (PNum (of_int i * y)) | Inl er \<Rightarrow> py_repeat i b)
      | (None, Some j) \<Rightarrow> (case num a of Inr x \<Rightarrow> Inr (PNum (x * of_int j)) | Inl er \<Rightarrow> py_repeat j a)
      | (None, None) \<Rightarrow> bindE (num a) (\<lambda>x. bindE (num b) (\<lambda>y. Inr (PNum (x * y)))))"

text \<open>Python truthiness, as used by \<^verbatim>\<open>not self.dep_enabled\<close> and \<^verbatim>\<open>and\<close>.\<close>

fun truthy :: "pyval \<Rightarrow> bool" where
  "truthy PNone = False"
| "truthy (PNum x) = (x \<noteq> 0)"
| "truthy (PInt i) = (i \<noteq> 0)"
| "truthy (PBool b) = b"
| "truthy (PStr s) = (s \<noteq> [])"
| "truthy (PList xs) = (xs \<noteq> [])"
| "truthy (PDict d) = (d \<noteq> [])"

text \<open>\<^verbatim>\<open>f"{v:.0f}"\<close>: formatting with a float format code. \<^verbatim>\<open>None\<close> and containers raise
  \<^verbatim>\<open>TypeError\<close>, a string raises \<^verbatim>\<open>ValueError\<close>.\<close>

fun fmt_float :: "pyval \<Rightarrow> unit res" where
  "fmt_float (PNum x) = Inr ()"
| "fmt_float (PInt i) = Inr ()"
| "fmt_float (PBool b) = Inr ()"
| "fmt_float (PStr s) = Inl ValueError"
| "fmt_float v = Inl TypeError"

text \<open>\<^verbatim>\<open>d[k]\<close> with a string key: \<^verbatim>\<open>KeyError\<close> on a dict without the key, \<^verbatim>\<open>TypeError\<close> on
  a value that is not a dict.\<close>

fun py_index :: "pyval \<Rightarrow> string \<Rightarrow> pyval res" where
  "py_index (PDict d) k = (case map_of d k of Some v \<Rightarrow> Inr v | None \<Rightarrow> Inl KeyError)"
| "py_index v k = Inl TypeError"

section \<open>config\_loader.py\<close>

text \<open>\<^verbatim>\<open>ConfigLoader.get(*keys, default=None)\<close>: walks the nested dictionaries; a key that
  is missing, or a value on the way that is not a dict, gives the default \<^verbatim>\<open>None\<close>. The
  first argument is \<^verbatim>\<open>self.config\<close>, the loaded JSON.\<close>

fun cfg_get :: "pyval \<Rightarrow> string list \<Rightarrow> pyval" where
  "cfg_get v [] = v"
| "cfg_get (PDict d) (k # ks) = (case map_of d k of Some v \<Rightarrow> cfg_get v ks | None \<Rightarrow> PNone)"
| "cfg_get v (k # ks) = PNone"

section \<open>powertrain.py\<close>

record tech =
  GT_specific_power_kW_kg :: pyval
  GT_efficiency :: pyval
  GT_BSFC_kg_kWh :: pyval
  EM_specific_power_kW_kg :: pyval
  EM_efficiency :: pyval
  GEN_specific_power_kW_kg :: pyval
  GEN_efficiency :: pyval
  battery_specific_energy_Wh_kg :: pyval
  battery_specific_power_kW_kg :: pyval
  battery_SOC_margin :: pyval
  battery_DOD :: pyval
  prop_efficiency :: pyval

text \<open>\<^verbatim>\<open>TechnologySpec.from_config\<close>: twelve \<^verbatim>\<open>cfg.get\<close> calls, stored as they come. Only the
  two percentages are used in arithmetic (\<^verbatim>\<open>/ 100\<close>), in the order of the keyword
  arguments.\<close>

definition from_config :: "pyval \<Rightarrow> tech res" where
  "from_config cfg =
     bindE (num (cfg_get cfg [''hybrid_system'', ''battery'', ''SOC_margin_percent''])) (\<lambda>soc.
     bindE (num (cfg_get cfg [''hybrid_system'', ''battery'', ''depth_of_discharge_percent''])) (\<lambda>dod.
     Inr \<lparr> GT_specific_power_kW_kg = cfg_get cfg [''hybrid_system'', ''gas_turbine'', ''specific_power_kW_kg''],
           GT_efficiency = cfg_get cfg [''hybrid_system'', ''gas_turbine'', ''efficiency''],
           GT_BSFC_kg_kWh = cfg_get cfg [''hybrid_system'', ''gas_turbine'', ''BSFC_kg_kWh''],
           EM_specific_power_kW_kg = cfg_get cfg [''hybrid_system'', ''electric_motor'', ''specific_power_kW_kg''],
           EM_efficiency = cfg_get cfg [''hybrid_system'', ''electric_motor'', ''efficiency''],
           GEN_specific_power_kW_kg = cfg_get cfg [''hybrid_system'', ''generator'', ''specific_power_kW_kg''],
           GEN_efficiency = cfg_get cfg [''hybrid_system'', ''generator'', ''efficiency''],
           battery_specific_energy_Wh_kg = cfg_get cfg [''hybrid_system'', ''battery'', ''specific_energy_Wh_kg''],
           battery_specific_power_kW_kg = cfg_get cfg [''hybrid_system'', ''battery'', ''specific_power_kW_kg''],
           battery_SOC_margin = PNum (soc / 100),
           battery_DOD = PNum (dod / 100),
           prop_efficiency = cfg_get cfg [''propulsion'', ''propeller_efficiency''] \<rparr>))"

text \<open>The dictionary returned by \<^verbatim>\<open>get_power_split\<close>. The four extra per-engine entries
  of the multi-engine variant are never read and are left out.\<close>

record split =
  P_GT_kW_s :: real
  P_EM_kW_s :: real
  fuel_rate_kg_s :: real
  battery_power_W :: real

text \<open>\<^verbatim>\<open>MotorSet\<close> of dual\_motor\_powertrain.py (its display name left out). The two
  properties multiply the stored fields at each read.\<close>

record motor_set =
  num_motors :: pyval
  power_per_motor_kW :: pyval
  weight_per_motor_lb :: pyval
  efficiency :: pyval
  active_phases :: pyval
  can_fold :: pyval
  folded_drag_cd :: pyval

definition total_power_kW :: "motor_set \<Rightarrow> pyval res" where
  "total_power_kW ms = py_mul (num_motors ms) (power_per_motor_kW ms)"

definition total_weight_lb :: "motor_set \<Rightarrow> pyval res" where
  "total_weight_lb ms = py_mul (num_motors ms) (weight_per_motor_lb ms)"

datatype arch = Conventional | ParallelHybrid | SerialHybrid | FullyElectric | MultiEngine | DualMotorDEP

text \<open>The powertrain object: the class as a tag and the union of the attributes of
  \<^verbatim>\<open>PowertrainBase\<close>, \<^verbatim>\<open>MultiEnginePowertrain\<close> and \<^verbatim>\<open>DualMotorDEPPowertrain\<close> (display
  name left out). An attribute that a class does not have is never read for its tag.
  \<open>m_highlift_lb\<close> holds the product that the constructor of the dual-motor class stored,
  unvalidated.\<close>

record powertrain =
  arch :: arch
  tech :: tech
  m_GT_lb :: real
  m_EM_lb :: real
  m_GEN_lb :: real
  m_battery_lb :: real
  m_fuel_lb :: real
  P_GT_kW :: real
  P_EM_kW :: real
  P_GEN_kW :: real
  num_engines :: pyval
  P_GT_per_engine_kW :: real
  P_EM_per_engine_kW :: real
  m_GT_per_engine_lb :: real
  m_EM_per_engine_lb :: real
  config :: pyval
  highlift_motors :: motor_set
  cruise_motors :: "motor_set option"
  num_cruise_motors :: pyval
  cruise_architecture :: pyval
  power_architecture :: pyval
  m_highlift_lb :: pyval
  m_cruise_motors_lb :: real
  m_wiring_lb :: real
  m_controllers_lb :: real

text \<open>\<^verbatim>\<open>PowertrainBase.__init__\<close>: all masses and powers start at 0.0. The attributes of
  the other two classes are given inert values.\<close>

definition no_motors :: motor_set where
  "no_motors = \<lparr> num_motors = PNone, power_per_motor_kW = PNone, weight_per_motor_lb = PNone,
     efficiency = PNone, active_phases = PNone, can_fold = PNone, folded_drag_cd = PNone \<rparr>"

definition base_init :: "arch \<Rightarrow> tech \<Rightarrow> powertrain" where
  "base_init a t =
     \<lparr> arch = a, tech = t,
       m_GT_lb = 0, m_EM_lb = 0, m_GEN_lb = 0, m_battery_lb = 0, m_fuel_lb = 0,
       P_GT_kW = 0, P_EM_kW = 0, P_GEN_kW = 0,
       num_engines = PNone,
       P_GT_per_engine_kW = 0, P_EM_per_engine_kW = 0, m_GT_per_engine_lb = 0, m_EM_per_engine_lb = 0,
       config = PNone, highlift_motors = no_motors, cruise_motors = None,
       num_cruise_motors = PNone, cruise_architecture = PNone, power_architecture = PNone,
       m_highlift_lb = PNum 0, m_cruise_motors_lb = 0, m_wiring_lb = 0, m_controllers_lb = 0 \<rparr>"

definition multi_init :: "tech \<Rightarrow> pyval \<Rightarrow> powertrain" where
  "multi_init t n = (base_init MultiEngine t) \<lparr> num_engines := n \<rparr>"

subsection \<open>Conventional\<close>

definition conventional_size_components :: "powertrain \<Rightarrow> real \<Rightarrow> real \<Rightarrow> powertrain res" where
  "conventional_size_components pt P_shaft_kW Hp =
     bindE (div_by P_shaft_kW (GT_specific_power_kW_kg (tech pt))) (\<lambda>m_GT_kg.
     Inr (pt \<lparr> P_GT_kW := P_shaft_kW,
               m_GT_lb := m_GT_kg * 2.20462,
               m_EM_lb := 0,
               m_GEN_lb := 0 \<rparr>))"

definition conventional_get_power_split :: "powertrain \<Rightarrow> real \<Rightarrow> real \<Rightarrow> split res" where
  "conventional_get_power_split pt P_required_kW Hp =
     bindE (num (GT_BSFC_kg_kWh (tech pt))) (\<lambda>bsfc.
     Inr \<lparr> P_GT_kW_s = P_required_kW,
           P_EM_kW_s = 0,
           fuel_rate_kg_s = (P_required_kW * bsfc) / 3600,
           battery_power_W = 0 \<rparr>)"

subsection \<open>Parallel hybrid\<close>

definition parallel_size_components :: "powertrain \<Rightarrow> real \<Rightarrow> real \<Rightarrow> powertrain res" where
  "parallel_size_components pt P_shaft_kW Hp =
     (let P_EM = P_shaft_kW * Hp;
          P_GT = P_shaft_kW * (1 - Hp)
      in
     bindE (div_by P_EM (EM_specific_power_kW_kg (tech pt))) (\<lambda>m_EM_kg.
     bindE (div_by P_GT (GT_specific_power_kW_kg (tech pt))) (\<lambda>m_GT_kg.
     Inr (pt \<lparr> P_EM_kW := P_EM,
               P_GT_kW := P_GT,
               m_EM_lb := m_EM_kg * 2.20462,
               m_GT_lb := m_GT_kg * 2.20462,
               m_GEN_lb := 0 \<rparr>))))"

definition parallel_get_power_split :: "powertrain \<Rightarrow> real \<Rightarrow> real \<Rightarrow> split res" where
  "parallel_get_power_split pt P_required_kW Hp =
     (let P_GT = P_required_kW * (1 - Hp);
          P_EM = P_required_kW * Hp
      in
     bindE (num (GT_BSFC_kg_kWh (tech pt))) (\<lambda>bsfc.
     bindE (div_by (P_EM * 1000) (EM_efficiency (tech pt))) (\<lambda>battery_power_W'.
     Inr \<lparr> P_GT_kW_s = P_GT,
           P_EM_kW_s = P_EM,
           fuel_rate_kg_s = (P_GT * bsfc) / 3600,
           battery_power_W = battery_power_W' \<rparr>)))"

subsection \<open>Serial hybrid\<close>

definition serial_size_components :: "powertrain \<Rightarrow> real \<Rightarrow> real \<Rightarrow> powertrain res" where
  "serial_size_components pt P_shaft_kW Hp =
     (let P_EM = P_shaft_kW * (1 + Hp) in
     bindE (div_by P_shaft_kW (EM_efficiency (tech pt))) (\<lambda>P_electric_cruise_kW.
     (let P_GEN = P_electric_cruise_kW in
     bindE (div_by P_GEN (GEN_efficiency (tech pt))) (\<lambda>P_GT.
     bindE (div_by P_EM (EM_specific_power_kW_kg (tech pt))) (\<lambda>m_EM_kg.
     bindE (div_by P_GEN (GEN_specific_power_kW_kg (tech pt))) (\<lambda>m_GEN_kg.
     bindE (div_by P_GT (GT_specific_power_kW_kg (tech pt))) (\<lambda>m_GT_kg.
     Inr (pt \<lparr> P_EM_kW := P_EM,
               P_GEN_kW := P_GEN,
               P_GT_kW := P_GT,
               m_EM_lb := m_EM_kg * 2.20462,
               m_GEN_lb := m_GEN_kg * 2.20462,
               m_GT_lb := m_GT_kg * 2.20462 \<rparr>))))))))"

text \<open>The local \<^verbatim>\<open>P_generator_kW\<close> of \<^verbatim>\<open>SerialHybridPowertrain.get_power_split\<close>: the
  electrical demand \<open>P_electric_kW\<close>, capped at the generator rating.\<close>

definition serial_P_generator_kW :: "powertrain \<Rightarrow> real \<Rightarrow> real" where
  "serial_P_generator_kW pt P_electric_kW = min P_electric_kW (P_GEN_kW pt)"

definition serial_get_power_split :: "powertrain \<Rightarrow> real \<Rightarrow> real \<Rightarrow> split res" where
  "serial_get_power_split pt P_required_kW Hp =
     (let P_EM = P_required_kW in
     bindE (div_by P_EM (EM_efficiency (tech pt))) (\<lambda>P_electric_kW.
     (let P_generator_kW = serial_P_generator_kW pt P_electric_kW;
          P_battery_kW = max 0 (P_electric_kW - P_generator_kW)
      in
     bindE (div_by P_generator_kW (GEN_efficiency (tech pt))) (\<lambda>P_GT.
     bindE (num (GT_BSFC_kg_kWh (tech pt))) (\<lambda>bsfc.
     Inr \<lparr> P_GT_kW_s = P_GT,
           P_EM_kW_s = P_EM,
           fuel_rate_kg_s = (P_GT * bsfc) / 3600,
           battery_power_W = P_battery_kW * 1000 \<rparr>)))))"

subsection \<open>Fully electric\<close>

definition electric_size_components :: "powertrain \<Rightarrow> real \<Rightarrow> real \<Rightarrow> powertrain res" where
  "electric_size_components pt P_shaft_kW Hp =
     bindE (div_by P_shaft_kW (EM_specific_power_kW_kg (tech pt))) (\<lambda>m_EM_kg.
     Inr (pt \<lparr> P_EM_kW := P_shaft_kW,
               m_EM_lb := m_EM_kg * 2.20462,
               m_GT_lb := 0,
               m_GEN_lb := 0 \<rparr>))"

definition electric_get_power_split :: "powertrain \<Rightarrow> real \<Rightarrow> real \<Rightarrow> split res" where
  "electric_get_power_split pt P_required_kW Hp =
     bindE (div_by (P_required_kW * 1000) (EM_efficiency (tech pt))) (\<lambda>battery_power_W'.
     Inr \<lparr> P_GT_kW_s = 0,
           P_EM_kW_s = P_required_kW,
           fuel_rate_kg_s = 0,
           battery_power_W = battery_power_W' \<rparr>)"

subsection \<open>Multi-engine parallel hybrid\<close>

definition multi_size_components :: "powertrain \<Rightarrow> real \<Rightarrow> real \<Rightarrow> powertrain res" where
  "multi_size_components pt P_shaft_kW Hp =
     bindE (num (num_engines pt)) (\<lambda>n.
     bindE (py_div P_shaft_kW n) (\<lambda>P_per_engine_kW.
     (let P_GT_pe = P_per_engine_kW * (1 - Hp);
          P_EM_pe = P_per_engine_kW * Hp
      in
     bindE (div_by P_GT_pe (GT_specific_power_kW_kg (tech pt))) (\<lambda>m_GT_pe_kg.
     bindE (div_by P_EM_pe (EM_specific_power_kW_kg (tech pt))) (\<lambda>m_EM_pe_kg.
     (let m_GT_pe = m_GT_pe_kg * 2.20462;
          m_EM_pe = m_EM_pe_kg * 2.20462
      in Inr (pt \<lparr> P_GT_per_engine_kW := P_GT_pe,
                   P_EM_per_engine_kW := P_EM_pe,
                   P_GT_kW := P_GT_pe * n,
                   P_EM_kW := P_EM_pe * n,
                   m_GT_per_engine_lb := m_GT_pe,
                   m_EM_per_engine_lb := m_EM_pe,
                   m_GT_lb := m_GT_pe * n,
                   m_EM_lb := m_EM_pe * n,
                   m_GEN_lb := 0 \<rparr>)))))))"

definition multi_get_power_split :: "powertrain \<Rightarrow> real \<Rightarrow> real \<Rightarrow> bool \<Rightarrow> split res" where
  "multi_get_power_split pt P_required_kW Hp oei_mode =
     bindE (if oei_mode then Inr (1, P_required_kW)
            else bindE (num (num_engines pt)) (\<lambda>n.
                 bindE (py_div P_required_kW n) (\<lambda>q. Inr (n, q)))) (\<lambda>(num_operating_engines, P_per_engine_kW).
     (let P_GT_pe = P_per_engine_kW * (1 - Hp);
          P_EM_pe = P_per_engine_kW * Hp;
          P_GT_total_kW = P_GT_pe * num_operating_engines;
          P_EM_total_kW = P_EM_pe * num_operating_engines
      in
     bindE (num (GT_BSFC_kg_kWh (tech pt))) (\<lambda>bsfc.
     bindE (div_by (P_EM_total_kW * 1000) (EM_efficiency (tech pt))) (\<lambda>battery_power_W'.
     Inr \<lparr> P_GT_kW_s = P_GT_total_kW,
           P_EM_kW_s = P_EM_total_kW,
           fuel_rate_kg_s = (P_GT_total_kW * bsfc) / 3600,
           battery_power_W = battery_power_W' \<rparr>))))"

section \<open>dual\_motor\_powertrain.py\<close>

text \<open>\<^verbatim>\<open>d.get(k, default)\<close> on a dictionary.\<close>

fun dict_get :: "pyval \<Rightarrow> string \<Rightarrow> pyval \<Rightarrow> pyval res" where
  "dict_get (PDict d) k dflt = Inr (case map_of d k of Some v \<Rightarrow> v | None \<Rightarrow> dflt)"
| "dict_get v k dflt = Inl TypeError"

text \<open>\<^verbatim>\<open>DualMotorDEPPowertrain.__init__(tech_spec, config)\<close>, \<open>cfg\<close> being the raw
  dictionary. \<^verbatim>\<open>config['dep_system']\<close> is indexed once here and again at each use in the
  source, with the same result. The copies of the battery figures, read only by
  \<^verbatim>\<open>size_battery\<close> (which the sizing loop never calls), are left out.\<close>

definition dual_init :: "tech \<Rightarrow> pyval \<Rightarrow> powertrain res" where
  "dual_init t cfg =
     bindE (py_index cfg ''dep_system'') (\<lambda>dep.
     bindE (py_index dep ''highlift_motors'') (\<lambda>hl_config.
     bindE (py_index hl_config ''number_of_motors'') (\<lambda>hl_n.
     bindE (py_index hl_config ''power_per_motor_kW'') (\<lambda>hl_p.
     bindE (py_index hl_config ''weight_per_motor_lb'') (\<lambda>hl_w.
     bindE (py_index hl_config ''efficiency'') (\<lambda>hl_eff.
     bindE (py_index hl_config ''active_phases'') (\<lambda>hl_ph.
     bindE (py_index hl_config ''folding'') (\<lambda>hl_fold.
     bindE (py_index hl_fold ''can_fold'') (\<lambda>hl_cf.
     bindE (py_index hl_fold ''folded_drag_coefficient_increment'') (\<lambda>hl_fd.
     bindE (py_index dep ''cruise_motors'') (\<lambda>cruise_config.
     bindE (py_index cruise_config ''number_of_motors'') (\<lambda>n_cruise.
     bindE (dict_get cruise_config ''architecture'' (PStr ''pure_electric'')) (\<lambda>cr_arch.
     bindE (py_index dep ''power_architecture'') (\<lambda>pa.
     bindE (py_index pa ''type'') (\<lambda>pa_type.
     (let hl = \<lparr> num_motors = hl_n, power_per_motor_kW = hl_p, weight_per_motor_lb = hl_w,
                 efficiency = hl_eff, active_phases = hl_ph, can_fold = hl_cf,
                 folded_drag_cd = hl_fd \<rparr>
      in bindE (total_weight_lb hl) (\<lambda>hl_weight.
         Inr ((base_init DualMotorDEP t)
                \<lparr> config := cfg,
                  highlift_motors := hl,
                  cruise_motors := None,
                  num_cruise_motors := n_cruise,
                  cruise_architecture := cr_arch,
                  power_architecture := pa_type,
                  m_highlift_lb := hl_weight \<rparr>))))))))))))))))))"

text \<open>\<^verbatim>\<open>size_cruise_motors(P_cruise_kW, Hp)\<close>; \<^verbatim>\<open>size_components\<close> of this class only calls
  it. The number of cruise motors has divided \<^verbatim>\<open>P_cruise_kW\<close> before the two properties of
  the new motor set are read, so these products are numbers.\<close>

definition size_cruise_motors :: "powertrain \<Rightarrow> real \<Rightarrow> real \<Rightarrow> powertrain res" where
  "size_cruise_motors pt P_cruise_kW Hp =
     bindE (py_index (config pt) ''dep_system'') (\<lambda>dep.
     bindE (py_index dep ''cruise_motors'') (\<lambda>cr_config.
     bindE (py_index cr_config ''number_of_motors'') (\<lambda>n_py.
     bindE (num n_py) (\<lambda>n.
     bindE (py_div P_cruise_kW n) (\<lambda>power_per_motor.
     bindE
       (if cruise_architecture pt = PStr ''parallel_hybrid'' then
          (let P_EM_per_motor = power_per_motor * Hp;
               P_EM_total = P_EM_per_motor * n;
               P_GT_per_motor = power_per_motor * (1 - Hp);
               P_GT_total = P_GT_per_motor * n
           in
          bindE (py_index cr_config ''specific_power_kW_kg'') (\<lambda>EM_specific_power.
          bindE (div_by P_EM_per_motor EM_specific_power) (\<lambda>m_EM_per_motor_kg.
          bindE (div_by P_GT_per_motor (GT_specific_power_kW_kg (tech pt))) (\<lambda>m_GT_per_motor_kg.
          bindE (py_index cr_config ''efficiency'') (\<lambda>cr_eff.
          (let m_EM_per_motor_lb = m_EM_per_motor_kg * 2.20462;
               m_GT_per_motor_lb = m_GT_per_motor_kg * 2.20462;
               w_per_motor_lb = m_GT_per_motor_lb + m_EM_per_motor_lb;
               cm = \<lparr> num_motors = n_py, power_per_motor_kW = PNum power_per_motor,
                      weight_per_motor_lb = PNum w_per_motor_lb, efficiency = cr_eff,
                      active_phases = PList [PStr ''all''], can_fold = PBool False,
                      folded_drag_cd = PNum 0.001 \<rparr>
           in bindE (bindE (total_weight_lb cm) num) (\<lambda>cm_weight.
              Inr (pt \<lparr> cruise_motors := Some cm,
                        P_GT_kW := P_GT_total,
                        P_EM_kW := P_EM_total,
                        m_GT_lb := m_GT_per_motor_lb * n,
                        m_EM_lb := m_EM_per_motor_lb * n,
                        m_cruise_motors_lb := cm_weight \<rparr>))))))))
        else
          bindE (py_index cr_config ''specific_power_kW_kg'') (\<lambda>specific_power_kW_kg.
          bindE (div_by power_per_motor specific_power_kW_kg) (\<lambda>weight_per_motor_kg.
          bindE (py_index cr_config ''efficiency'') (\<lambda>cr_eff.
          (let w_per_motor_lb = weight_per_motor_kg * 2.20462;
               cm = \<lparr> num_motors = n_py, power_per_motor_kW = PNum power_per_motor,
                      weight_per_motor_lb = PNum w_per_motor_lb, efficiency = cr_eff,
                      active_phases = PList [PStr ''all''], can_fold = PBool False,
                      folded_drag_cd = PNum 0.001 \<rparr>
           in bindE (bindE (total_weight_lb cm) num) (\<lambda>cm_weight.
              bindE (bindE (total_power_kW cm) num) (\<lambda>cm_power.
              Inr (pt \<lparr> cruise_motors := Some cm,
                        m_cruise_motors_lb := cm_weight,
                        P_GT_kW := 0,
                        P_EM_kW := cm_power,
                        m_GT_lb := 0,
                        m_EM_lb := cm_weight \<rparr>))))))))
       (\<lambda>pt'.
     bindE (bindE (total_power_kW (highlift_motors pt')) num) (\<lambda>hl_power.
     (let total_power = P_cruise_kW + hl_power in
     bindE (py_index dep ''wiring_and_controls'') (\<lambda>wc.
     bindE (py_index wc ''wiring_weight_factor'') (\<lambda>wf_py.
     bindE (num wf_py) (\<lambda>wf.
     bindE (py_index wc ''controller_weight_per_kW'') (\<lambda>cw_py.
     bindE (num cw_py) (\<lambda>cw.
     Inr (pt' \<lparr> m_wiring_lb := total_power * wf,
                m_controllers_lb := total_power * cw \<rparr>))))))))))))))"

definition dual_get_power_split :: "powertrain \<Rightarrow> real \<Rightarrow> real \<Rightarrow> split res" where
  "dual_get_power_split pt P_required_kW Hp =
     (case cruise_motors pt of
        None \<Rightarrow>
          Inr \<lparr> P_GT_kW_s = 0, P_EM_kW_s = 0, fuel_rate_kg_s = 0, battery_power_W = 0 \<rparr>
      | Some cm \<Rightarrow>
          (let P_cruise_shaft_kW = P_required_kW in
           if cruise_architecture pt = PStr ''parallel_hybrid'' then
             (let P_EM_shaft_kW = P_cruise_shaft_kW * Hp;
                  P_GT_shaft_kW = P_cruise_shaft_kW * (1 - Hp)
              in
             bindE (div_by P_EM_shaft_kW (efficiency cm)) (\<lambda>P_elec_cruise_kW.
             bindE (num (GT_BSFC_kg_kWh (tech pt))) (\<lambda>BSFC.
             Inr \<lparr> P_GT_kW_s = P_GT_shaft_kW,
                   P_EM_kW_s = P_EM_shaft_kW,
                   fuel_rate_kg_s = (P_GT_shaft_kW * BSFC) / 3600,
                   battery_power_W = P_elec_cruise_kW * 1000 \<rparr>)))
           else
             bindE (div_by P_cruise_shaft_kW (efficiency cm)) (\<lambda>P_elec_cruise_kW.
             Inr \<lparr> P_GT_kW_s = 0,
                   P_EM_kW_s = P_cruise_shaft_kW,
                   fuel_rate_kg_s = 0,
                   battery_power_W = P_elec_cruise_kW * 1000 \<rparr>)))"

subsection \<open>Method dispatch on the class of the powertrain\<close>

definition size_components :: "powertrain \<Rightarrow> real \<Rightarrow> real \<Rightarrow> powertrain res" where
  "size_components pt P_shaft_kW Hp =
     (case arch pt of
        Conventional \<Rightarrow> conventional_size_components pt P_shaft_kW Hp
      | ParallelHybrid \<Rightarrow> parallel_size_components pt P_shaft_kW Hp
      | SerialHybrid \<Rightarrow> serial_size_components pt P_shaft_kW Hp
      | FullyElectric \<Rightarrow> electric_size_components pt P_shaft_kW Hp
      | MultiEngine \<Rightarrow> multi_size_components pt P_shaft_kW Hp
      | DualMotorDEP \<Rightarrow> size_cruise_motors pt P_shaft_kW Hp)"

definition get_power_split :: "powertrain \<Rightarrow> real \<Rightarrow> real \<Rightarrow> split res" where
  "get_power_split pt P_required_kW Hp =
     (case arch pt of
        Conventional \<Rightarrow> conventional_get_power_split pt P_required_kW Hp
      | ParallelHybrid \<Rightarrow> parallel_get_power_split pt P_required_kW Hp
      | SerialHybrid \<Rightarrow> serial_get_power_split pt P_required_kW Hp
      | FullyElectric \<Rightarrow> electric_get_power_split pt P_required_kW Hp
      | MultiEngine \<Rightarrow> multi_get_power_split pt P_required_kW Hp False
      | DualMotorDEP \<Rightarrow> dual_get_power_split pt P_required_kW Hp)"

text \<open>\<^verbatim>\<open>get_total_propulsion_weight\<close>: the sum of the dual-motor class adds the stored
  \<open>m_highlift_lb\<close> to a float.\<close>

definition get_total_propulsion_weight :: "powertrain \<Rightarrow> real res" where
  "get_total_propulsion_weight pt =
     (if arch pt = DualMotorDEP
      then bindE (num (m_highlift_lb pt)) (\<lambda>m_highlift.
           Inr (m_battery_lb pt + m_highlift + m_cruise_motors_lb pt + m_wiring_lb pt
                  + m_controllers_lb pt))
      else Inr (m_GT_lb pt + m_EM_lb pt + m_GEN_lb pt))"

section \<open>atmosphere.py\<close>

text \<open>\<^verbatim>\<open>atmosisa(altitude_m)\<close> returns (T, P, rho, a).\<close>

definition atmosisa :: "real \<Rightarrow> real \<times> real \<times> real \<times> real" where
  "atmosisa altitude_m =
     (let T0 = 288.15; P0 = 101325; g = 9.80665; R = 287.05 in
      if altitude_m \<le> 11000 then
        (let L = - 0.0065;
             T = T0 + L * altitude_m;
             P = P0 * (T / T0) powr (- g / (L * R));
             rho = P / (R * T);
             a = sqrt (1.4 * R * T)
         in (T, P, rho, a))
      else
        (let T11 = 216.65; P11 = 22632.1;
             T = T11;
             P = P11 * exp (- g * (altitude_m - 11000) / (R * T));
             rho = P / (R * T);
             a = sqrt (1.4 * R * T)
         in (T, P, rho, a)))"

definition rho_of :: "real \<times> real \<times> real \<times> real \<Rightarrow> real" where
  "rho_of r = fst (snd (snd r))"

section \<open>constraints.py\<close>

text \<open>\<^verbatim>\<open>perform_constraint_analysis\<close> returns (WS\_design, P\_shaft\_kW). \<open>cfg\<close> is the
  dictionary behind the \<^verbatim>\<open>config\<close> argument. The statements are in the order of the
  source. The quotient \<^verbatim>\<open>ks_climb**2 / CLmax_clean_eff\<close> is written twice in the source and
  computed once here. The locals that are only printed (\<^verbatim>\<open>TW_required\<close>,
  \<^verbatim>\<open>sizing_constraint\<close>, \<^verbatim>\<open>T_total_lb\<close>) are left out; the report printed at the end
  evaluates three more quotients, by the number of engines and by the weight.\<close>

definition perform_constraint_analysis ::
  "real \<Rightarrow> pyval \<Rightarrow> pyval \<Rightarrow> pyval \<Rightarrow> pyval \<Rightarrow> pyval \<Rightarrow> pyval \<Rightarrow> pyval \<Rightarrow> real \<Rightarrow> pyval \<Rightarrow> pyval
     \<Rightarrow> pyval \<Rightarrow> pyval \<Rightarrow> real \<Rightarrow> bool \<Rightarrow> (real \<times> real) res" where
  "perform_constraint_analysis TOGW_lb V_stall_kts BFL_ft LFL_ft CLmax_clean CLmax_TO CLmax_land
       CD0 K1 cruise_speed_kts cruise_alt_ft prop_efficiency' cfg blown_lift_augmentation
       use_blown_lift_sizing =
     bindE (if use_blown_lift_sizing then
              bindE (num CLmax_clean) (\<lambda>clmax_clean.
              bindE (num CLmax_TO) (\<lambda>clmax_to.
              bindE (num CLmax_land) (\<lambda>clmax_land.
              Inr (PNum (clmax_clean * blown_lift_augmentation),
                   PNum (clmax_to * blown_lift_augmentation),
                   PNum (clmax_land * blown_lift_augmentation)))))
            else Inr (CLmax_clean, CLmax_TO, CLmax_land))
       (\<lambda>(CLmax_clean_eff', CLmax_TO_eff', CLmax_land_eff').
     bindE (num V_stall_kts) (\<lambda>v_stall_kts.
     bindE (num CLmax_clean_eff') (\<lambda>CLmax_clean_eff.
     bindE (num LFL_ft) (\<lambda>lfl_ft.
     bindE (num CLmax_land_eff') (\<lambda>CLmax_land_eff.
     bindE (num BFL_ft) (\<lambda>bfl_ft.
     bindE (num CD0) (\<lambda>cd0.
     (let rho_SL = 0.002377;
          V_stall_fps = v_stall_kts * 1.688;
          WS_stall_max = 0.5 * rho_SL * V_stall_fps\<^sup>2 * CLmax_clean_eff;
          W_land_ratio = 0.95;
          sigma_SL = 1.0;
          WS_landing_max = (lfl_ft - 600) * sigma_SL * CLmax_land_eff / 80;
          WS_landing_max_TO = WS_landing_max / W_land_ratio;
          TOP = bfl_ft / 37.5;
          ks_climb = 1.2;
          CL_climb = CLmax_clean_eff / ks_climb\<^sup>2;
          CD_climb = cd0 + K1 * CL_climb\<^sup>2;
          gamma_climb_OEI = 0.024
      in
     bindE (py_div (ks_climb\<^sup>2) CLmax_clean_eff) (\<lambda>ks2_over_CLmax.
     bindE (num (cfg_get cfg [''propulsion'', ''number_of_engines''])) (\<lambda>N_engines.
     bindE (py_div N_engines (N_engines - 1)) (\<lambda>OEI_factor.
     bindE (num (cfg_get cfg [''performance_requirements'', ''rate_of_climb_ceiling_fpm''])) (\<lambda>ROC_ceiling_fpm.
     bindE (num (cfg_get cfg [''mission_requirements'', ''service_ceiling_ft''])) (\<lambda>service_ceiling_ft.
     (let T_W_climb_OEI_req = ks2_over_CLmax * CD_climb + gamma_climb_OEI;
          TW_climb_OEI = OEI_factor * T_W_climb_OEI_req;
          gamma_climb_AEO = 0.05;
          T_W_climb_AEO_req = ks2_over_CLmax * CD_climb + gamma_climb_AEO;
          TW_climb_AEO = T_W_climb_AEO_req;
          ROC_ceiling_fps = ROC_ceiling_fpm / 60;
          h_ceiling_m = service_ceiling_ft * 0.3048;
          rho_ceiling_slug = rho_of (atmosisa h_ceiling_m) / 515.379;
          alpha_ceiling = 0.50
      in
     bindE (py_div (2 * 60) (rho_ceiling_slug * CLmax_clean_eff)) (\<lambda>V2_ceiling.
     bindE (num cruise_alt_ft) (\<lambda>cruise_alt.
     bindE (num cruise_speed_kts) (\<lambda>cruise_speed.
     bindE (num CLmax_TO_eff') (\<lambda>CLmax_TO_eff.
     (let V_climb_ceiling = sqrt V2_ceiling;
          T_W_ceiling_req = ROC_ceiling_fps / V_climb_ceiling + 2 * sqrt (cd0 * K1);
          TW_ceiling = (1.0 / alpha_ceiling) * T_W_ceiling_req;
          h_cruise_m = cruise_alt * 0.3048;
          rho_cruise_slug = rho_of (atmosisa h_cruise_m) / 515.379;
          V_cruise_fps = cruise_speed * 1.688;
          alpha_cruise = 0.75;
          beta_cruise = 1.0;
          q_cruise = 0.5 * rho_cruise_slug * V_cruise_fps\<^sup>2;
          WS_design = min WS_stall_max WS_landing_max_TO
      in
     bindE (py_div WS_design (sigma_SL * CLmax_TO_eff * TOP)) (\<lambda>TW_takeoff.
     bindE (py_div TOGW_lb WS_design) (\<lambda>S_ref.
     bindE (py_div TOGW_lb (q_cruise * S_ref)) (\<lambda>CL_cruise.
     (let CD_cruise = cd0 + K1 * CL_cruise\<^sup>2 in
     bindE (py_div CL_cruise CD_cruise) (\<lambda>L_D_cruise.
     bindE (py_div 1.0 L_D_cruise) (\<lambda>D_L_cruise.
     bindE (num prop_efficiency') (\<lambda>prop_eff.
     (let TW_cruise = (beta_cruise / alpha_cruise) * D_L_cruise;
          V_climb_fps = ks_climb * V_stall_fps
      in
     bindE (py_div ((TW_takeoff * TOGW_lb) * 1.15 * V_stall_fps) (550 * prop_eff)) (\<lambda>P_takeoff_HP.
     bindE (py_div ((TW_climb_OEI * TOGW_lb) * V_climb_fps) (550 * prop_eff)) (\<lambda>P_climb_OEI_HP.
     bindE (py_div ((TW_climb_AEO * TOGW_lb) * V_climb_fps) (550 * prop_eff)) (\<lambda>P_climb_AEO_HP.
     bindE (py_div ((TW_ceiling * TOGW_lb) * V_climb_ceiling) (550 * prop_eff)) (\<lambda>P_ceiling_HP.
     bindE (py_div ((TW_cruise * TOGW_lb) * V_cruise_fps) (550 * prop_eff)) (\<lambda>P_cruise_HP.
     (let P_shaft_HP = max (max (max (max P_takeoff_HP P_climb_OEI_HP) P_climb_AEO_HP) P_ceiling_HP) P_cruise_HP;
          P_shaft_kW = P_shaft_HP * 0.7457
      in
     bindE (py_div P_shaft_kW N_engines) (\<lambda>_.
     bindE (py_div P_shaft_HP N_engines) (\<lambda>_.
     bindE (py_div P_shaft_HP TOGW_lb) (\<lambda>_.
     Inr (WS_design, P_shaft_kW)))))))))))))))))))))))))))))))))))))"

section \<open>The aircraft object and the mission segments\<close>

text \<open>\<^verbatim>\<open>MissionSegment\<close> of mission.py. The altitudes are the literals of
  \<^verbatim>\<open>create_mission\<close> or the configured cruise altitude, stored as it came.\<close>

record segment =
  name :: string
  altitude_start_ft :: pyval
  altitude_end_ft :: pyval
  Hp :: real
  blown_lift_active :: bool
  time_sec :: real
  fuel_lb :: real
  battery_Wh :: real
  distance_nm :: real

text \<open>\<^verbatim>\<open>HybridElectricAircraft\<close> of aircraft.py (display name left out). \<open>config\<close> is the
  dictionary of the aircraft's \<^verbatim>\<open>ConfigLoader\<close>. The attributes read from the
  configuration hold whatever \<^verbatim>\<open>get\<close> returned. \<open>WS_psf\<close> is a quotient of NumPy scalars
  once the aircraft is sized.\<close>

record aircraft =
  config :: pyval
  W_payload_lb :: pyval
  range_nm :: pyval
  cruise_speed_kts :: pyval
  cruise_alt_ft :: pyval
  AR :: pyval
  e :: pyval
  CD0 :: pyval
  K1 :: real
  CLmax_clean :: pyval
  CLmax_TO :: pyval
  CLmax_land :: pyval
  dep_enabled :: pyval
  dep_lift_aug_max :: pyval
  dep_blown_span_fraction :: pyval
  dep_num_motors :: pyval
  dep_use_for_wing_sizing :: pyval
  V_stall_kts :: pyval
  BFL_ft :: pyval
  LFL_ft :: pyval
  ROC_fpm :: pyval
  tech :: tech
  TOGW_lb :: pyval
  OEW_lb :: real
  W_fuel_lb :: real
  W_battery_lb :: real
  S_wing_ft2 :: real
  WS_psf :: "real option"
  PW_hp_lb :: real
  weight_breakdown :: "(string \<times> real) list"
  powertrain :: "powertrain option"
  Hp_design :: real
  hybridization_profile :: "(string \<times> real) list option"

text \<open>\<^verbatim>\<open>self.powertrain.<attribute>\<close>: \<^verbatim>\<open>AttributeError\<close> on \<^verbatim>\<open>None\<close>.\<close>

definition the_powertrain :: "aircraft \<Rightarrow> powertrain res" where
  "the_powertrain ac = (case powertrain ac of None \<Rightarrow> Inl AttributeError | Some pt \<Rightarrow> Inr pt)"

text \<open>\<^verbatim>\<open>HybridElectricAircraft.get_lift_augmentation_factor(blown_lift_active)\<close>.\<close>

definition get_lift_augmentation_factor :: "aircraft \<Rightarrow> bool \<Rightarrow> real res" where
  "get_lift_augmentation_factor ac blown =
     (if \<not> blown \<or> \<not> truthy (dep_enabled ac) then Inr 1.0
      else bindE (num (dep_lift_aug_max ac)) (\<lambda>lift_aug_max.
           bindE (num (dep_blown_span_fraction ac)) (\<lambda>blown_span_fraction.
           Inr (1.0 + (lift_aug_max - 1.0) * blown_span_fraction))))"

section \<open>mission.py\<close>

text \<open>\<open>mcfg\<close> is the dictionary of the module-level \<^verbatim>\<open>config = load_config()\<close> of
  mission.py, which is not the aircraft's own configuration object.\<close>

definition get_highlift_motor_power :: "pyval \<Rightarrow> aircraft \<Rightarrow> bool \<Rightarrow> real res" where
  "get_highlift_motor_power mcfg ac blown =
     (if \<not> blown \<or> \<not> truthy (dep_enabled ac) then Inr 0.0
      else bindE (num (dep_num_motors ac)) (\<lambda>n.
           bindE (num (cfg_get mcfg [''dep_system'', ''motor_power_kW''])) (\<lambda>p.
           Inr (n * p))))"

text \<open>The six segment routines return (time\_sec, fuel\_lb, battery\_Wh). Locals that are
  computed and never used (\<^verbatim>\<open>CL\<close> where the drag uses \<^verbatim>\<open>CL_base\<close>, \<^verbatim>\<open>V_liftoff_fps\<close>) are
  left out.\<close>

definition simulate_cruise_segment ::
  "pyval \<Rightarrow> aircraft \<Rightarrow> segment \<Rightarrow> real \<Rightarrow> real \<Rightarrow> (segment \<times> real \<times> real \<times> real) res" where
  "simulate_cruise_segment mcfg ac seg W_lb S_ft2 =
     bindE (num (altitude_start_ft seg)) (\<lambda>alt_start.
     bindE (num (cruise_speed_kts ac)) (\<lambda>cruise_speed.
     bindE (get_lift_augmentation_factor ac (blown_lift_active seg)) (\<lambda>lift_aug_factor.
     bindE (num (CD0 ac)) (\<lambda>cd0.
     bindE (num (prop_efficiency (tech ac))) (\<lambda>prop_eff.
     (let h_m = alt_start * 0.3048;
          rho_slug_ft3 = rho_of (atmosisa h_m) / 515.379;
          V_fps = cruise_speed * 1.688;
          CL_base = W_lb / (0.5 * rho_slug_ft3 * V_fps\<^sup>2 * S_ft2);
          CD = cd0 + K1 ac * CL_base\<^sup>2;
          D_lb = 0.5 * rho_slug_ft3 * V_fps\<^sup>2 * S_ft2 * CD;
          P_shaft_HP = D_lb * V_fps / (550 * prop_eff);
          P_shaft_kW = P_shaft_HP * 0.7457
      in
     bindE (the_powertrain ac) (\<lambda>pt.
     bindE (get_power_split pt P_shaft_kW (Hp seg)) (\<lambda>power_split.
     bindE (num (range_nm ac)) (\<lambda>range.
     (let distance_ft = range * 6076.12;
          t = distance_ft / V_fps
      in
     bindE (get_highlift_motor_power mcfg ac (blown_lift_active seg)) (\<lambda>P_highlift_kW.
     (let P_highlift_W = P_highlift_kW * 1000.0;
          f = fuel_rate_kg_s power_split * t * 2.20462;
          b = (battery_power_W power_split * t) / 3600 + (P_highlift_W * t) / 3600
      in Inr (seg \<lparr> distance_nm := range \<rparr>, t, f, b)))))))))))))"

definition simulate_climb_segment ::
  "pyval \<Rightarrow> aircraft \<Rightarrow> segment \<Rightarrow> real \<Rightarrow> real \<Rightarrow> (real \<times> real \<times> real) res" where
  "simulate_climb_segment mcfg ac seg W_lb S_ft2 =
     bindE (get_lift_augmentation_factor ac (blown_lift_active seg)) (\<lambda>lift_aug_factor.
     bindE (num (CLmax_clean ac)) (\<lambda>clmax_clean.
     bindE (num (CD0 ac)) (\<lambda>cd0.
     bindE (num (prop_efficiency (tech ac))) (\<lambda>prop_eff.
     (let W_avg = W_lb * 0.99;
          CLmax_clean_effective = clmax_clean * lift_aug_factor;
          rho_sl = 0.002377;
          V_stall_fps = sqrt (2 * W_avg / (rho_sl * S_ft2 * CLmax_clean_effective));
          V_climb_fps = 1.3 * V_stall_fps;
          gamma = 0.05;
          ROC_fps = V_climb_fps * gamma;
          CL_climb_base = W_avg / (0.5 * rho_sl * V_climb_fps\<^sup>2 * S_ft2);
          CL_climb = CL_climb_base * lift_aug_factor;
          CD_climb = cd0 + K1 ac * CL_climb_base\<^sup>2;
          T_lb = W_avg * (1 / (CL_climb / CD_climb) + gamma);
          P_shaft_HP = T_lb * V_climb_fps / (550 * prop_eff);
          P_shaft_kW = P_shaft_HP * 0.7457
      in
     bindE (the_powertrain ac) (\<lambda>pt.
     bindE (get_power_split pt P_shaft_kW (Hp seg)) (\<lambda>power_split.
     bindE (num (altitude_end_ft seg)) (\<lambda>alt_end.
     bindE (num (altitude_start_ft seg)) (\<lambda>alt_start.
     (let alt_change_ft = alt_end - alt_start;
          t = (if ROC_fps > 0 then alt_change_ft / ROC_fps else 600)
      in
     bindE (get_highlift_motor_power mcfg ac (blown_lift_active seg)) (\<lambda>P_highlift_kW.
     (let P_highlift_W = P_highlift_kW * 1000.0;
          f = fuel_rate_kg_s power_split * t * 2.20462;
          b = (battery_power_W power_split * t) / 3600 + (P_highlift_W * t) / 3600
      in Inr (t, f, b)))))))))))))"

definition simulate_descent_segment ::
  "pyval \<Rightarrow> aircraft \<Rightarrow> segment \<Rightarrow> real \<Rightarrow> real \<Rightarrow> (real \<times> real \<times> real) res" where
  "simulate_descent_segment mcfg ac seg W_lb S_ft2 =
     bindE (num (altitude_start_ft seg)) (\<lambda>alt_start.
     bindE (num (altitude_end_ft seg)) (\<lambda>alt_end.
     bindE (num (cruise_speed_kts ac)) (\<lambda>cruise_speed.
     bindE (get_lift_augmentation_factor ac (blown_lift_active seg)) (\<lambda>lift_aug_factor.
     bindE (num (CD0 ac)) (\<lambda>cd0.
     (let h_avg_ft = (alt_start + alt_end) / 2;
          h_avg_m = h_avg_ft * 0.3048;
          rho_slug_ft3 = rho_of (atmosisa h_avg_m) / 515.379;
          V_descent_kts = cruise_speed * 0.9;
          V_fps = V_descent_kts * 1.688;
          descent_rate_fpm = 600;
          descent_rate_fps = descent_rate_fpm / 60;
          gamma = arctan (descent_rate_fps / V_fps);
          W_effective = W_lb * cos gamma;
          CL_base = W_effective / (0.5 * rho_slug_ft3 * V_fps\<^sup>2 * S_ft2);
          CD = cd0 + K1 ac * CL_base\<^sup>2;
          D_lb = 0.5 * rho_slug_ft3 * V_fps\<^sup>2 * S_ft2 * CD;
          T_required_lb = D_lb - W_lb * sin gamma
      in
     bindE (if T_required_lb < 0
            then bindE (the_powertrain ac) (\<lambda>pt. Inr (P_GT_kW pt * 0.07))
            else bindE (num (prop_efficiency (tech ac))) (\<lambda>prop_eff.
                 bindE (the_powertrain ac) (\<lambda>pt.
                 (let P_shaft_HP = T_required_lb * V_fps / (550 * prop_eff);
                      P_shaft_kW = P_shaft_HP * 0.7457
                  in Inr (max P_shaft_kW (P_GT_kW pt * 0.07)))))) (\<lambda>P_shaft_kW.
     bindE (the_powertrain ac) (\<lambda>pt.
     bindE (get_power_split pt P_shaft_kW (Hp seg)) (\<lambda>power_split.
     (let alt_change_ft = alt_start - alt_end;
          t = (if descent_rate_fps > 0 then alt_change_ft / descent_rate_fps else 480)
      in
     bindE (get_highlift_motor_power mcfg ac (blown_lift_active seg)) (\<lambda>P_highlift_kW.
     (let P_highlift_W = P_highlift_kW * 1000.0;
          f = fuel_rate_kg_s power_split * t * 2.20462;
          b = (battery_power_W power_split * t) / 3600 + (P_highlift_W * t) / 3600
      in Inr (t, f, b)))))))))))))"

definition simulate_takeoff_segment ::
  "pyval \<Rightarrow> aircraft \<Rightarrow> segment \<Rightarrow> real \<Rightarrow> real \<Rightarrow> (real \<times> real \<times> real) res" where
  "simulate_takeoff_segment mcfg ac seg W_lb S_ft2 =
     bindE (get_lift_augmentation_factor ac (blown_lift_active seg)) (\<lambda>lift_aug_factor.
     bindE (num (CLmax_TO ac)) (\<lambda>clmax_to.
     (let rho_sl = 0.002377;
          CLmax_TO_effective = clmax_to * lift_aug_factor;
          V_stall_TO_fps = sqrt (2 * W_lb / (rho_sl * S_ft2 * CLmax_TO_effective));
          t_ground_sec = 30;
          V_climb_fps = 1.3 * V_stall_TO_fps;
          climb_gradient = 0.08;
          ROC_fps = V_climb_fps * climb_gradient;
          t_climb_sec = (if ROC_fps > 0 then 35 / ROC_fps else 20);
          t = t_ground_sec + t_climb_sec
      in
     bindE (the_powertrain ac) (\<lambda>pt.
     (let P_takeoff_kW = (if P_EM_kW pt > 0 then P_GT_kW pt + P_EM_kW pt else P_GT_kW pt * 0.95)
      in
     bindE (get_power_split pt P_takeoff_kW (Hp seg)) (\<lambda>power_split.
     bindE (get_highlift_motor_power mcfg ac (blown_lift_active seg)) (\<lambda>P_highlift_kW.
     (let P_highlift_W = P_highlift_kW * 1000.0;
          f = fuel_rate_kg_s power_split * t * 2.20462;
          b = (battery_power_W power_split * t) / 3600 + (P_highlift_W * t) / 3600
      in Inr (t, f, b)))))))))"

definition simulate_loiter_segment ::
  "pyval \<Rightarrow> aircraft \<Rightarrow> segment \<Rightarrow> real \<Rightarrow> real \<Rightarrow> (real \<times> real \<times> real) res" where
  "simulate_loiter_segment mcfg ac seg W_lb S_ft2 =
     bindE (num (altitude_start_ft seg)) (\<lambda>alt_start.
     bindE (get_lift_augmentation_factor ac (blown_lift_active seg)) (\<lambda>lift_aug_factor.
     bindE (num (CLmax_clean ac)) (\<lambda>clmax_clean.
     bindE (num (CD0 ac)) (\<lambda>cd0.
     bindE (num (prop_efficiency (tech ac))) (\<lambda>prop_eff.
     (let h_m = alt_start * 0.3048;
          rho_slug_ft3 = rho_of (atmosisa h_m) / 515.379;
          CLmax_clean_effective = clmax_clean * lift_aug_factor;
          V_stall_fps = sqrt (2 * W_lb / (rho_slug_ft3 * S_ft2 * CLmax_clean_effective));
          V_loiter_fps = 1.3 * V_stall_fps;
          CL_base = W_lb / (0.5 * rho_slug_ft3 * V_loiter_fps\<^sup>2 * S_ft2);
          CD = cd0 + K1 ac * CL_base\<^sup>2;
          D_lb = 0.5 * rho_slug_ft3 * V_loiter_fps\<^sup>2 * S_ft2 * CD;
          P_shaft_HP = D_lb * V_loiter_fps / (550 * prop_eff);
          P_shaft_kW = P_shaft_HP * 0.7457
      in
     bindE (the_powertrain ac) (\<lambda>pt.
     bindE (get_power_split pt P_shaft_kW (Hp seg)) (\<lambda>power_split.
     (let t = 30 * 60 in
     bindE (get_highlift_motor_power mcfg ac (blown_lift_active seg)) (\<lambda>P_highlift_kW.
     (let P_highlift_W = P_highlift_kW * 1000.0;
          f = fuel_rate_kg_s power_split * t * 2.20462;
          b = (battery_power_W power_split * t) / 3600 + (P_highlift_W * t) / 3600
      in Inr (t, f, b))))))))))))"

definition simulate_landing_segment ::
  "pyval \<Rightarrow> aircraft \<Rightarrow> segment \<Rightarrow> real \<Rightarrow> real \<Rightarrow> (real \<times> real \<times> real) res" where
  "simulate_landing_segment mcfg ac seg W_lb S_ft2 =
     bindE (num (altitude_start_ft seg)) (\<lambda>alt_start.
     bindE (get_lift_augmentation_factor ac (blown_lift_active seg)) (\<lambda>lift_aug_factor.
     bindE (num (CLmax_land ac)) (\<lambda>clmax_land.
     bindE (num (CD0 ac)) (\<lambda>cd0.
     bindE (num (prop_efficiency (tech ac))) (\<lambda>prop_eff.
     (let h_m = alt_start * 0.3048;
          rho_slug_ft3 = rho_of (atmosisa h_m) / 515.379;
          CLmax_land_effective = clmax_land * lift_aug_factor;
          V_stall_land_fps = sqrt (2 * W_lb / (rho_slug_ft3 * S_ft2 * CLmax_land_effective));
          V_approach_fps = 1.3 * V_stall_land_fps;
          gamma_approach = 3.0 * pi / 180;
          descent_distance_ft = alt_start / tan gamma_approach;
          t_approach_sec = descent_distance_ft / V_approach_fps;
          CL_base = W_lb / (0.5 * rho_slug_ft3 * V_approach_fps\<^sup>2 * S_ft2);
          CD = cd0 + K1 ac * CL_base\<^sup>2 + 0.02;
          D_lb = 0.5 * rho_slug_ft3 * V_approach_fps\<^sup>2 * S_ft2 * CD;
          T_required_lb = D_lb - W_lb * sin gamma_approach;
          P_shaft_HP = max 0 (T_required_lb * V_approach_fps / (550 * prop_eff));
          P_shaft_kW = P_shaft_HP * 0.7457;
          t_flare_rollout_sec = 30;
          t = t_approach_sec + t_flare_rollout_sec
      in
     bindE (the_powertrain ac) (\<lambda>pt.
     bindE (get_power_split pt P_shaft_kW (Hp seg)) (\<lambda>power_split.
     bindE (get_highlift_motor_power mcfg ac (blown_lift_active seg)) (\<lambda>P_highlift_kW.
     (let P_highlift_W = P_highlift_kW * 1000.0;
          f = fuel_rate_kg_s power_split * t * 2.20462;
          b = (battery_power_W power_split * t) / 3600 + (P_highlift_W * t) / 3600
      in Inr (t, f, b)))))))))))"

text \<open>The \<^verbatim>\<open>if/elif\<close> chain of \<^verbatim>\<open>simulate_mission\<close>, in its order; the result carries the
  segment as the routine left it (the cruise routine stores the distance).\<close>

definition simulate_segment ::
  "pyval \<Rightarrow> aircraft \<Rightarrow> segment \<Rightarrow> real \<Rightarrow> real \<Rightarrow> (segment \<times> real \<times> real \<times> real) res" where
  "simulate_segment mcfg ac seg W_lb S_ft2 =
     (if name seg = ''cruise'' then simulate_cruise_segment mcfg ac seg W_lb S_ft2
      else if name seg = ''climb'' then
        bindE (simulate_climb_segment mcfg ac seg W_lb S_ft2) (\<lambda>r. Inr (seg, r))
      else if name seg = ''descent'' then
        bindE (simulate_descent_segment mcfg ac seg W_lb S_ft2) (\<lambda>r. Inr (seg, r))
      else if name seg = ''takeoff'' then
        bindE (simulate_takeoff_segment mcfg ac seg W_lb S_ft2) (\<lambda>r. Inr (seg, r))
      else if name seg = ''loiter'' then
        bindE (simulate_loiter_segment mcfg ac seg W_lb S_ft2) (\<lambda>r. Inr (seg, r))
      else if name seg = ''landing'' then
        bindE (simulate_landing_segment mcfg ac seg W_lb S_ft2) (\<lambda>r. Inr (seg, r))
      else Inl ValueError)"

text \<open>The dictionary returned by \<^verbatim>\<open>simulate_mission\<close>; \<open>segments\<close> holds the segments
  processed so far, with their results stored.\<close>

record mission_results =
  total_fuel_lb :: real
  total_battery_Wh :: real
  total_time_sec :: real
  segments :: "segment list"

text \<open>The \<^verbatim>\<open>for segment in segments\<close> loop. Its state is the local \<^verbatim>\<open>W_current_lb\<close> and the
  three running totals.\<close>

fun mission_loop ::
  "pyval \<Rightarrow> aircraft \<Rightarrow> real \<Rightarrow> segment list \<Rightarrow> real \<times> mission_results
     \<Rightarrow> (real \<times> mission_results) res" where
  "mission_loop mcfg ac S_wing [] st = Inr st"
| "mission_loop mcfg ac S_wing (seg # rest) (W_current_lb, mr) =
     bindE (simulate_segment mcfg ac seg W_current_lb S_wing) (\<lambda>(seg', t, f, b).
       mission_loop mcfg ac S_wing rest
         (W_current_lb - f,
          \<lparr> total_fuel_lb = total_fuel_lb mr + f,
            total_battery_Wh = total_battery_Wh mr + b,
            total_time_sec = total_time_sec mr + t,
            segments = segments mr @ [seg' \<lparr> time_sec := t, fuel_lb := f, battery_Wh := b \<rparr>] \<rparr>))"

definition simulate_mission ::
  "pyval \<Rightarrow> aircraft \<Rightarrow> segment list \<Rightarrow> real \<Rightarrow> real \<Rightarrow> mission_results res" where
  "simulate_mission mcfg ac segs TOGW S_wing =
     bindE (mission_loop mcfg ac S_wing segs
              (TOGW, \<lparr> total_fuel_lb = 0, total_battery_Wh = 0, total_time_sec = 0, segments = [] \<rparr>))
       (\<lambda>(W_final, mr). Inr mr)"

section \<open>aircraft.py\<close>

text \<open>\<^verbatim>\<open>str.lower()\<close> on ASCII.\<close>

definition lower_char :: "char \<Rightarrow> char" where
  "lower_char c = (let n = (of_char c :: nat) in if 65 \<le> n \<and> n \<le> 90 then char_of (n + 32) else c)"

definition lower :: "string \<Rightarrow> string" where
  "lower s = map lower_char s"

text \<open>\<^verbatim>\<open>HybridElectricAircraft.__init__\<close>, \<open>cfg\<close> being the dictionary of the loaded
  configuration. Only \<^verbatim>\<open>K1\<close> (computed before the technology figures are read) and the
  technology figures do arithmetic here.\<close>

definition aircraft_init :: "pyval \<Rightarrow> aircraft res" where
  "aircraft_init cfg =
     bindE (num (cfg_get cfg [''aerodynamics'', ''aspect_ratio''])) (\<lambda>ar.
     bindE (num (cfg_get cfg [''aerodynamics'', ''oswald_efficiency''])) (\<lambda>osw.
     bindE (py_div 1 (pi * ar * osw)) (\<lambda>K1'.
     bindE (from_config cfg) (\<lambda>t.
     Inr \<lparr> config = cfg,
           W_payload_lb = cfg_get cfg [''mission_requirements'', ''payload_weight_lb''],
           range_nm = cfg_get cfg [''mission_requirements'', ''design_range_nm''],
           cruise_speed_kts = cfg_get cfg [''mission_requirements'', ''cruise_speed_kts''],
           cruise_alt_ft = cfg_get cfg [''mission_requirements'', ''cruise_altitude_ft''],
           AR = cfg_get cfg [''aerodynamics'', ''aspect_ratio''],
           e = cfg_get cfg [''aerodynamics'', ''oswald_efficiency''],
           CD0 = cfg_get cfg [''aerodynamics'', ''zero_lift_drag_coefficient''],
           K1 = K1',
           CLmax_clean = cfg_get cfg [''aerodynamics'', ''CLmax_clean''],
           CLmax_TO = cfg_get cfg [''aerodynamics'', ''CLmax_takeoff''],
           CLmax_land = cfg_get cfg [''aerodynamics'', ''CLmax_landing''],
           dep_enabled = cfg_get cfg [''dep_system'', ''enabled''],
           dep_lift_aug_max = cfg_get cfg [''dep_system'', ''lift_augmentation_factor_max''],
           dep_blown_span_fraction = cfg_get cfg [''dep_system'', ''blown_span_fraction''],
           dep_num_motors = cfg_get cfg [''dep_system'', ''number_of_highlift_motors''],
           dep_use_for_wing_sizing = cfg_get cfg [''dep_system'', ''use_for_wing_sizing''],
           V_stall_kts = cfg_get cfg [''performance_requirements'', ''stall_speed_requirement_kts''],
           BFL_ft = cfg_get cfg [''performance_requirements'', ''balanced_field_length_ft''],
           LFL_ft = cfg_get cfg [''performance_requirements'', ''landing_field_length_ft''],
           ROC_fpm = cfg_get cfg [''performance_requirements'', ''rate_of_climb_sea_level_fpm''],
           tech = t,
           TOGW_lb = cfg_get cfg [''weight_iteration'', ''initial_TOGW_guess_lb''],
           OEW_lb = 0, W_fuel_lb = 0, W_battery_lb = 0, S_wing_ft2 = 0, WS_psf = Some 0,
           PW_hp_lb = 0,
           weight_breakdown = [],
           powertrain = None,
           Hp_design = 0,
           hybridization_profile = None \<rparr>))))"

text \<open>\<^verbatim>\<open>set_powertrain(architecture, Hp_design, hybridization_profile)\<close>. A profile is a
  dictionary from segment names to ratios, kept as an association list.\<close>

definition arch_of_name :: "string \<Rightarrow> arch option" where
  "arch_of_name s =
     map_of [(''conventional'', Conventional), (''parallel'', ParallelHybrid),
             (''serial'', SerialHybrid), (''electric'', FullyElectric),
             (''dual_motor_dep'', DualMotorDEP), (''multi_engine'', MultiEngine)] s"

definition set_powertrain ::
  "aircraft \<Rightarrow> string \<Rightarrow> real \<Rightarrow> (string \<times> real) list option \<Rightarrow> aircraft res" where
  "set_powertrain ac architecture Hp_design' profile =
     (case arch_of_name (lower architecture) of
        None \<Rightarrow> Inl ValueError
      | Some a \<Rightarrow>
          bindE (if a = DualMotorDEP then dual_init (tech ac) (config ac)
                 else if a = MultiEngine
                 then Inr (multi_init (tech ac) (cfg_get (config ac) [''propulsion'', ''number_of_engines'']))
                 else Inr (base_init a (tech ac))) (\<lambda>pt.
          (case profile of
             Some prof \<Rightarrow>
               (if prof = [] then Inl ValueError
                else Inr (ac \<lparr> powertrain := Some pt,
                               hybridization_profile := Some prof,
                               Hp_design := Max (set (map snd prof)) \<rparr>))
           | None \<Rightarrow>
               Inr (ac \<lparr> powertrain := Some pt,
                         Hp_design := Hp_design',
                         hybridization_profile := None \<rparr>))))"

text \<open>\<^verbatim>\<open>d.get(k, default)\<close> on a profile.\<close>

definition prof_get :: "(string \<times> 'a) list \<Rightarrow> string \<Rightarrow> 'a \<Rightarrow> 'a" where
  "prof_get d k dflt = (case map_of d k of Some v \<Rightarrow> v | None \<Rightarrow> dflt)"

text \<open>The \<^verbatim>\<open>MissionSegment\<close> constructor with its four result fields at their default.\<close>

definition MissionSegment :: "string \<Rightarrow> pyval \<Rightarrow> pyval \<Rightarrow> real \<Rightarrow> bool \<Rightarrow> segment" where
  "MissionSegment nm a_start a_end hp blown =
     \<lparr> name = nm, altitude_start_ft = a_start, altitude_end_ft = a_end, Hp = hp,
       blown_lift_active = blown, time_sec = 0, fuel_lb = 0, battery_Wh = 0, distance_nm = 0 \<rparr>"

definition default_blown_lift_profile :: "(string \<times> bool) list" where
  "default_blown_lift_profile =
     [(''takeoff'', True), (''climb'', True), (''cruise'', False), (''descent'', False),
      (''loiter'', False), (''landing'', True)]"

definition create_mission ::
  "aircraft \<Rightarrow> (string \<times> real) list \<Rightarrow> (string \<times> bool) list option \<Rightarrow> segment list" where
  "create_mission ac hyb_profile blown_opt =
     (let blown_lift_profile = (case blown_opt of None \<Rightarrow> default_blown_lift_profile | Some bp \<Rightarrow> bp)
      in [MissionSegment ''takeoff'' (PNum 0) (PNum 35)
            (prof_get hyb_profile ''takeoff'' 0.0) (prof_get blown_lift_profile ''takeoff'' False),
          MissionSegment ''climb'' (PNum 35) (cruise_alt_ft ac)
            (prof_get hyb_profile ''climb'' 0.0) (prof_get blown_lift_profile ''climb'' False),
          MissionSegment ''cruise'' (cruise_alt_ft ac) (cruise_alt_ft ac)
            (prof_get hyb_profile ''cruise'' 0.0) (prof_get blown_lift_profile ''cruise'' False),
          MissionSegment ''descent'' (cruise_alt_ft ac) (PNum 450)
            (prof_get hyb_profile ''descent'' 0.0) (prof_get blown_lift_profile ''descent'' False),
          MissionSegment ''loiter'' (PNum 450) (PNum 450)
            (prof_get hyb_profile ''loiter'' 0.0) (prof_get blown_lift_profile ''loiter'' False),
          MissionSegment ''landing'' (PNum 450) (PNum 0)
            (prof_get hyb_profile ''landing'' 0.0) (prof_get blown_lift_profile ''landing'' False)])"

definition constraint_analysis :: "aircraft \<Rightarrow> real \<Rightarrow> (real \<times> real) res" where
  "constraint_analysis ac TOGW =
     bindE (if truthy (dep_enabled ac) \<and> truthy (dep_use_for_wing_sizing ac)
            then bindE (get_lift_augmentation_factor ac True) (\<lambda>aug. Inr (aug, True))
            else Inr (1.0, False)) (\<lambda>(blown_lift_aug, use_blown_sizing).
     perform_constraint_analysis TOGW (V_stall_kts ac) (BFL_ft ac) (LFL_ft ac) (CLmax_clean ac)
       (CLmax_TO ac) (CLmax_land ac) (CD0 ac) (K1 ac) (cruise_speed_kts ac) (cruise_alt_ft ac)
       (prop_efficiency (tech ac)) (config ac) blown_lift_aug use_blown_sizing)"

text \<open>\<^verbatim>\<open>calculate_OEW\<close> stores the breakdown in the aircraft and returns the sum of its
  values.\<close>

definition calculate_OEW :: "aircraft \<Rightarrow> real \<Rightarrow> real \<Rightarrow> (aircraft \<times> real) res" where
  "calculate_OEW ac TOGW S_wing =
     bindE (num (AR ac)) (\<lambda>ar.
     bindE (the_powertrain ac) (\<lambda>pt.
     bindE (get_total_propulsion_weight pt) (\<lambda>W_propulsion_lb.
     (let N_ult = 3.75;
          W_wing_lb = 0.04674 * (TOGW powr 0.397) * (S_wing powr 0.360) * (N_ult powr 0.397)
                        * (ar powr 1.712);
          W_fuselage_lb = 0.23 * TOGW powr 0.5 * 100;
          W_empennage_lb = 0.04 * TOGW;
          W_gear_lb = 0.02 * TOGW;
          W_systems_lb = 0.2 * TOGW;
          breakdown = [(''wing'', W_wing_lb), (''fuselage'', W_fuselage_lb),
                       (''empennage'', W_empennage_lb), (''gear'', W_gear_lb),
                       (''propulsion'', W_propulsion_lb), (''systems'', W_systems_lb)]
      in Inr (ac \<lparr> weight_breakdown := breakdown \<rparr>, sum_list (map snd breakdown))))))"

subsection \<open>Battery sizing inside the sizing loop\<close>

text \<open>The locals set by the battery block of \<^verbatim>\<open>size_aircraft\<close> (the \<^verbatim>\<open>if/else\<close> on the
  battery figures).\<close>

record battery_out =
  bat_W_battery_lb :: real
  bat_W_battery_Wh :: real
  bat_W_battery_kWh :: real
  max_battery_power_kW :: real
  max_power_segment :: string
  c_rate_actual :: real
  c_rate_max :: real
  sizing_constraint :: string

text \<open>The inner loop over \<^verbatim>\<open>mission_results['segments']\<close>: the largest average battery
  power of a segment of positive duration, and the name of that segment.\<close>

fun peak_battery_power :: "segment list \<Rightarrow> real \<times> string \<Rightarrow> real \<times> string" where
  "peak_battery_power [] acc = acc"
| "peak_battery_power (seg # rest) (max_battery_power_W, max_power_seg) =
     peak_battery_power rest
       (if time_sec seg > 0 then
          (let seg_power_W = battery_Wh seg / (time_sec seg / 3600)
           in if seg_power_W > max_battery_power_W then (seg_power_W, name seg)
              else (max_battery_power_W, max_power_seg))
        else (max_battery_power_W, max_power_seg))"

definition battery_sizing :: "tech \<Rightarrow> mission_results \<Rightarrow> battery_out res" where
  "battery_sizing t mr =
     bindE (num (battery_specific_energy_Wh_kg t)) (\<lambda>spec_energy.
     bindE (if spec_energy > 0 then bindE (num (battery_DOD t)) (\<lambda>dod. Inr (dod > 0, dod))
            else Inr (False, 0)) (\<lambda>(has_battery, dod).
     if has_battery then
       bindE (num (battery_specific_power_kW_kg t)) (\<lambda>spec_power.
       (let W_battery_Wh = total_battery_Wh mr / dod;
            W_battery_kWh = W_battery_Wh / 1000.0;
            m_battery_energy_kg = W_battery_kWh / (spec_energy / 1000.0);
            peak = peak_battery_power (segments mr) (0.0, []);
            max_battery_power_kW' = fst peak / 1000.0;
            m_battery_power_kg = (if spec_power > 0 then max_battery_power_kW' / spec_power else 0.0);
            m_battery_kg = max m_battery_energy_kg m_battery_power_kg
        in Inr \<lparr> bat_W_battery_lb = m_battery_kg * 2.20462,
                 bat_W_battery_Wh = W_battery_Wh,
                 bat_W_battery_kWh = W_battery_kWh,
                 max_battery_power_kW = max_battery_power_kW',
                 max_power_segment = snd peak,
                 c_rate_actual = (if W_battery_kWh > 0 then max_battery_power_kW' / W_battery_kWh else 0.0),
                 c_rate_max = (if spec_energy > 0 then spec_power / (spec_energy / 1000.0) else 0.0),
                 sizing_constraint = (if m_battery_power_kg > m_battery_energy_kg then ''POWER'' else ''energy'') \<rparr>))
     else
       Inr \<lparr> bat_W_battery_lb = 0.0,
             bat_W_battery_Wh = 0.0,
             bat_W_battery_kWh = 0.0,
             max_battery_power_kW = 0.0,
             max_power_segment = ''N/A'',
             c_rate_actual = 0.0,
             c_rate_max = 0.0,
             sizing_constraint = ''N/A'' \<rparr>))"

subsection \<open>The sizing loop\<close>

text \<open>The locals that one pass of the loop body leaves behind and that the code after the
  loop reads.\<close>

record iter =
  it_S_wing_ft2 :: real
  it_OEW_lb :: real
  it_mission :: mission_results
  it_W_fuel_lb :: real
  it_battery :: battery_out
  it_TOGW_new_lb :: real
  it_error :: "real option"

text \<open>One pass of the body of \<^verbatim>\<open>for iteration in range(max_iterations)\<close>, up to the
  computation of \<^verbatim>\<open>error\<close>, for the guess \<^verbatim>\<open>TOGW_guess_lb\<close>. It mutates the powertrain
  (\<^verbatim>\<open>size_components\<close>) and the weight breakdown.\<close>

definition sizing_iteration ::
  "pyval \<Rightarrow> (string \<times> real) list \<Rightarrow> aircraft \<Rightarrow> real \<Rightarrow> (aircraft \<times> iter) res" where
  "sizing_iteration mcfg hyb_profile ac TOGW_guess_lb =
     bindE (constraint_analysis ac TOGW_guess_lb) (\<lambda>(WS, P_shaft_kW).
     bindE (py_div TOGW_guess_lb WS) (\<lambda>S_wing.
     bindE (the_powertrain ac) (\<lambda>pt.
     bindE (size_components pt P_shaft_kW (Hp_design ac)) (\<lambda>pt'.
     bindE (calculate_OEW (ac \<lparr> powertrain := Some pt' \<rparr>) TOGW_guess_lb S_wing) (\<lambda>(ac', OEW).
     bindE (simulate_mission mcfg ac' (create_mission ac' hyb_profile None) TOGW_guess_lb S_wing) (\<lambda>mr.
     bindE (battery_sizing (tech ac') mr) (\<lambda>bat.
     bindE (num (W_payload_lb ac')) (\<lambda>payload.
     (let W_fuel = total_fuel_lb mr * 1.06;
          TOGW_new_lb = OEW + payload + W_fuel + bat_W_battery_lb bat
      in Inr (ac',
              \<lparr> it_S_wing_ft2 = S_wing,
                it_OEW_lb = OEW,
                it_mission = mr,
                it_W_fuel_lb = W_fuel,
                it_battery = bat,
                it_TOGW_new_lb = TOGW_new_lb,
                it_error = np_div \<bar>TOGW_new_lb - TOGW_guess_lb\<bar> TOGW_guess_lb \<rparr>))))))))))"

text \<open>\<^verbatim>\<open>error < tolerance\<close>: false when the error is inf or nan.\<close>

definition below :: "real option \<Rightarrow> real \<Rightarrow> bool" where
  "below er tolerance = (case er of None \<Rightarrow> False | Some x \<Rightarrow> x < tolerance)"

text \<open>The loop itself, with the number of passes still allowed. It ends on \<^verbatim>\<open>break\<close>
  (\<^verbatim>\<open>error < tolerance\<close>) or when the range is exhausted; \<open>last_it\<close> is the pass whose
  locals are live after the loop, \<open>None\<close> when the body never ran.\<close>

fun sizing_loop ::
  "pyval \<Rightarrow> (string \<times> real) list \<Rightarrow> real \<Rightarrow> nat \<Rightarrow> aircraft \<Rightarrow> real \<Rightarrow> iter option
     \<Rightarrow> (aircraft \<times> iter option) res" where
  "sizing_loop mcfg hyb_profile tolerance 0 ac TOGW_guess_lb last_it = Inr (ac, last_it)"
| "sizing_loop mcfg hyb_profile tolerance (Suc n) ac TOGW_guess_lb last_it =
     bindE (sizing_iteration mcfg hyb_profile ac TOGW_guess_lb) (\<lambda>(ac', it).
       if below (it_error it) tolerance then Inr (ac', Some it)
       else sizing_loop mcfg hyb_profile tolerance n ac'
              (0.7 * TOGW_guess_lb + 0.3 * it_TOGW_new_lb it) (Some it))"

text \<open>The dictionary returned by \<^verbatim>\<open>size_aircraft\<close>. Seven keys share their name with an
  attribute of the aircraft and carry the prefix \<open>result_\<close> here. The five quotients of
  NumPy scalars are \<open>None\<close> when they are not finite.\<close>

record sizing_results =
  result_TOGW_lb :: real
  result_OEW_lb :: real
  result_W_fuel_lb :: real
  result_W_battery_lb :: real
  result_W_payload_lb :: real
  result_S_wing_ft2 :: real
  result_WS_psf :: "real option"
  fuel_fraction :: "real option"
  battery_fraction :: "real option"
  payload_fraction :: "real option"
  PREE :: "real option"
  mission_time_min :: real
  converged :: bool
  battery_c_rate :: real
  battery_c_rate_max :: real
  battery_sizing_constraint :: string
  battery_peak_power_kW :: real
  battery_peak_segment :: string

text \<open>The code after the loop: it stores the sizing in the aircraft and builds the
  results from the locals of the last pass.\<close>

definition finish_sizing :: "real \<Rightarrow> aircraft \<Rightarrow> iter \<Rightarrow> (aircraft \<times> sizing_results) res" where
  "finish_sizing tolerance ac it =
     bindE (num (W_payload_lb ac)) (\<lambda>payload.
     bindE (num (range_nm ac)) (\<lambda>range.
     (let TOGW_new_lb = it_TOGW_new_lb it;
          OEW = it_OEW_lb it;
          W_fuel = it_W_fuel_lb it;
          W_battery = bat_W_battery_lb (it_battery it);
          S_wing = it_S_wing_ft2 it;
          WS = np_div TOGW_new_lb S_wing;
          E_fuel_Wh = W_fuel * 0.453592 * 43000 / 3.6;
          E_battery_Wh = bat_W_battery_Wh (it_battery it);
          E_total_Wh = E_fuel_Wh + E_battery_Wh
      in Inr (ac \<lparr> TOGW_lb := PNum TOGW_new_lb,
                   OEW_lb := OEW,
                   W_fuel_lb := W_fuel,
                   W_battery_lb := W_battery,
                   S_wing_ft2 := S_wing,
                   WS_psf := WS \<rparr>,
              \<lparr> result_TOGW_lb = TOGW_new_lb,
                result_OEW_lb = OEW,
                result_W_fuel_lb = W_fuel,
                result_W_battery_lb = W_battery,
                result_W_payload_lb = payload,
                result_S_wing_ft2 = S_wing,
                result_WS_psf = WS,
                fuel_fraction = np_div W_fuel TOGW_new_lb,
                battery_fraction = np_div W_battery TOGW_new_lb,
                payload_fraction = np_div payload TOGW_new_lb,
                PREE = np_div ((payload * 4.44822) * (range * 1852)) E_total_Wh,
                mission_time_min = total_time_sec (it_mission it) / 60,
                converged = below (it_error it) tolerance,
                battery_c_rate = c_rate_actual (it_battery it),
                battery_c_rate_max = c_rate_max (it_battery it),
                battery_sizing_constraint = sizing_constraint (it_battery it),
                battery_peak_power_kW = max_battery_power_kW (it_battery it),
                battery_peak_segment = max_power_segment (it_battery it) \<rparr>))))"

text \<open>The profile that the run uses: the argument, else the one stored by
  \<^verbatim>\<open>set_powertrain\<close>, else the default built from \<^verbatim>\<open>Hp_design\<close>.\<close>

definition resolve_profile :: "aircraft \<Rightarrow> (string \<times> real) list option \<Rightarrow> (string \<times> real) list" where
  "resolve_profile ac profile_arg =
     (case profile_arg of
        Some prof \<Rightarrow> prof
      | None \<Rightarrow>
          (case hybridization_profile ac of
             Some prof \<Rightarrow> prof
           | None \<Rightarrow> [(''takeoff'', Hp_design ac), (''climb'', Hp_design ac), (''cruise'', 0.0),
                      (''descent'', 0.0), (''loiter'', 0.0), (''landing'', Hp_design ac)]))"

text \<open>The header printed before the loop formats four attributes with \<^verbatim>\<open>:.0f\<close>.\<close>

definition print_header :: "aircraft \<Rightarrow> unit res" where
  "print_header ac =
     bindE (fmt_float (W_payload_lb ac)) (\<lambda>_.
     bindE (fmt_float (range_nm ac)) (\<lambda>_.
     bindE (fmt_float (cruise_speed_kts ac)) (\<lambda>_.
     fmt_float (cruise_alt_ft ac))))"

text \<open>\<^verbatim>\<open>size_aircraft(max_iterations, tolerance, hybridization_profile)\<close>. The first guess
  is the literal 15000. When the loop body never ran, the first statement after the loop
  reads the unbound local \<^verbatim>\<open>TOGW_new_lb\<close>.\<close>

definition size_aircraft ::
  "pyval \<Rightarrow> aircraft \<Rightarrow> int \<Rightarrow> real \<Rightarrow> (string \<times> real) list option
     \<Rightarrow> (aircraft \<times> sizing_results) res" where
  "size_aircraft mcfg ac max_iterations tolerance profile_arg =
     (if powertrain ac = None then Inl ValueError
      else
        (let hyb_profile = resolve_profile ac profile_arg in
         bindE (print_header ac) (\<lambda>_.
         bindE (sizing_loop mcfg hyb_profile tolerance (nat max_iterations) ac 15000 None) (\<lambda>(ac', last_it).
         (case last_it of
            None \<Rightarrow> Inl UnboundLocalError
          | Some it \<Rightarrow> finish_sizing tolerance ac' it)))))"

section \<open>Reference data\<close>

text \<open>A complete configuration, used to instantiate the theorems below at concrete inputs.
  The performance section is a parameter, so that a leaf of it can be left out.\<close>

definition example_cfg_with :: "(string \<times> pyval) list \<Rightarrow> pyval" where
  "example_cfg_with perf =
     PDict [
       (''mission_requirements'', PDict [
          (''payload_weight_lb'', PNum 1200), (''design_range_nm'', PNum 200),
          (''cruise_speed_kts'', PNum 150), (''cruise_altitude_ft'', PNum 8000),
          (''service_ceiling_ft'', PNum 25000)]),
       (''aerodynamics'', PDict [
          (''aspect_ratio'', PNum 10), (''oswald_efficiency'', PNum 0.8),
          (''zero_lift_drag_coefficient'', PNum 0.025), (''CLmax_clean'', PNum 1.6),
          (''CLmax_takeoff'', PNum 2.0), (''CLmax_landing'', PNum 2.4)]),
       (''dep_system'', PDict [
          (''enabled'', PBool False), (''lift_augmentation_factor_max'', PNum 1.8),
          (''blown_span_fraction'', PNum 0.65), (''number_of_highlift_motors'', PNum 12),
          (''use_for_wing_sizing'', PBool False), (''motor_power_kW'', PNum 10.5)]),
       (''performance_requirements'', PDict perf),
       (''hybrid_system'', PDict [
          (''gas_turbine'', PDict [(''specific_power_kW_kg'', PNum 4), (''efficiency'', PNum 0.3),
                                   (''BSFC_kg_kWh'', PNum 0.3)]),
          (''electric_motor'', PDict [(''specific_power_kW_kg'', PNum 5), (''efficiency'', PNum 0.95)]),
          (''generator'', PDict [(''specific_power_kW_kg'', PNum 5), (''efficiency'', PNum 0.95)]),
          (''battery'', PDict [(''specific_energy_Wh_kg'', PNum 250), (''specific_power_kW_kg'', PNum 1),
                               (''SOC_margin_percent'', PNum 20),
                               (''depth_of_discharge_percent'', PNum 80)])]),
       (''propulsion'', PDict [(''propeller_efficiency'', PNum 0.85), (''number_of_engines'', PNum 2)]),
       (''weight_iteration'', PDict [(''initial_TOGW_guess_lb'', PNum 12000)])]"

definition example_perf_tail :: "(string \<times> pyval) list" where
  "example_perf_tail =
     [(''balanced_field_length_ft'', PNum 1500), (''landing_field_length_ft'', PNum 1500),
      (''rate_of_climb_sea_level_fpm'', PNum 1500), (''rate_of_climb_ceiling_fpm'', PNum 100)]"

definition example_cfg :: pyval where
  "example_cfg = example_cfg_with ((''stall_speed_requirement_kts'', PNum 61) # example_perf_tail)"

text \<open>The same configuration without the stall-speed leaf.\<close>

definition example_cfg_no_stall :: pyval where
  "example_cfg_no_stall = example_cfg_with example_perf_tail"

definition example_tech :: tech where
  "example_tech =
     \<lparr> GT_specific_power_kW_kg = PNum 4, GT_efficiency = PNum 0.3, GT_BSFC_kg_kWh = PNum 0.3,
       EM_specific_power_kW_kg = PNum 5, EM_efficiency = PNum 0.95,
       GEN_specific_power_kW_kg = PNum 5, GEN_efficiency = PNum 0.95,
       battery_specific_energy_Wh_kg = PNum 250, battery_specific_power_kW_kg = PNum 1,
       battery_SOC_margin = PNum (20 / 100), battery_DOD = PNum (80 / 100),
       prop_efficiency = PNum 0.85 \<rparr>"

text \<open>The aircraft that \<open>aircraft_init\<close> builds from \<open>example_cfg\<close>, with a given technology
  and a freshly constructed powertrain of a given class (none of the dual-motor class,
  whose constructor reads more of the configuration).\<close>

definition example_aircraft :: "tech \<Rightarrow> arch \<Rightarrow> aircraft" where
  "example_aircraft t a =
     \<lparr> config = example_cfg,
       W_payload_lb = PNum 1200, range_nm = PNum 200, cruise_speed_kts = PNum 150,
       cruise_alt_ft = PNum 8000,
       AR = PNum 10, e = PNum 0.8, CD0 = PNum 0.025, K1 = 1 / (pi * 10 * 0.8),
       CLmax_clean = PNum 1.6, CLmax_TO = PNum 2.0, CLmax_land = PNum 2.4,
       dep_enabled = PBool False, dep_lift_aug_max = PNum 1.8, dep_blown_span_fraction = PNum 0.65,
       dep_num_motors = PNum 12, dep_use_for_wing_sizing = PBool False,
       V_stall_kts = PNum 61, BFL_ft = PNum 1500, LFL_ft = PNum 1500, ROC_fpm = PNum 1500,
       tech = t,
       TOGW_lb = PNum 12000,
       OEW_lb = 0, W_fuel_lb = 0, W_battery_lb = 0, S_wing_ft2 = 0, WS_psf = Some 0, PW_hp_lb = 0,
       weight_breakdown = [],
       powertrain = Some (if a = MultiEngine then multi_init t (PNum 2) else base_init a t),
       Hp_design = 0.3,
       hybridization_profile = None \<rparr>"


section \<open>Predicates used to state the theorems\<close>

text \<open>A value that arithmetic accepts.\<close>

fun is_num :: "pyval \<Rightarrow> bool" where
  "is_num (PNum x) = True"
| "is_num (PInt i) = True"
| "is_num (PBool b) = True"
| "is_num v = False"

text \<open>A value that arithmetic accepts as a denominator.\<close>

definition is_nonzero :: "pyval \<Rightarrow> bool" where
  "is_nonzero v \<longleftrightarrow> (case num v of Inl er \<Rightarrow> False | Inr x \<Rightarrow> x \<noteq> 0)"

text \<open>A value that is a positive number.\<close>

definition is_pos :: "pyval \<Rightarrow> bool" where
  "is_pos v \<longleftrightarrow> (case num v of Inl er \<Rightarrow> False | Inr x \<Rightarrow> 0 < x)"

text \<open>A powertrain of one of the five classes of powertrain.py whose technology figures
  are numbers, those that divide being nonzero: sufficient for its two methods to
  return.\<close>

definition pt_ready :: "powertrain \<Rightarrow> bool" where
  "pt_ready pt \<longleftrightarrow>
     arch pt \<noteq> DualMotorDEP
     \<and> is_nonzero (GT_specific_power_kW_kg (powertrain.tech pt))
     \<and> is_num (GT_BSFC_kg_kWh (powertrain.tech pt))
     \<and> is_nonzero (EM_specific_power_kW_kg (powertrain.tech pt))
     \<and> is_nonzero (EM_efficiency (powertrain.tech pt))
     \<and> is_nonzero (GEN_specific_power_kW_kg (powertrain.tech pt))
     \<and> is_nonzero (GEN_efficiency (powertrain.tech pt))
     \<and> (arch pt = MultiEngine \<longrightarrow> is_nonzero (num_engines pt))"

text \<open>An aircraft whose attributes read by the segment routines are numbers: sufficient
  for the mission simulation to return.\<close>

definition mission_ready :: "pyval \<Rightarrow> aircraft \<Rightarrow> bool" where
  "mission_ready mcfg ac \<longleftrightarrow>
     is_num (cruise_speed_kts ac) \<and> is_num (range_nm ac) \<and> is_num (CD0 ac)
     \<and> is_num (CLmax_clean ac) \<and> is_num (CLmax_TO ac) \<and> is_num (CLmax_land ac)
     \<and> is_num (prop_efficiency (tech ac))
     \<and> (truthy (dep_enabled ac) \<longrightarrow>
           is_num (dep_lift_aug_max ac) \<and> is_num (dep_blown_span_fraction ac)
           \<and> is_num (dep_num_motors ac) \<and> is_num (cfg_get mcfg [''dep_system'', ''motor_power_kW'']))
     \<and> (case powertrain ac of None \<Rightarrow> False | Some pt \<Rightarrow> pt_ready pt)"

text \<open>The six segment names, in the order of \<^verbatim>\<open>create_mission\<close>.\<close>

definition canonical_names :: "string list" where
  "canonical_names = [''takeoff'', ''climb'', ''cruise'', ''descent'', ''loiter'', ''landing'']"

definition seg_ready :: "segment \<Rightarrow> bool" where
  "seg_ready seg \<longleftrightarrow> name seg \<in> set canonical_names
     \<and> is_num (altitude_start_ft seg) \<and> is_num (altitude_end_ft seg)"

text \<open>\<open>post Q m\<close>: if the computation \<open>m\<close> returns, its result satisfies \<open>Q\<close>.\<close>

definition post :: "('a \<Rightarrow> bool) \<Rightarrow> 'a res \<Rightarrow> bool" where
  "post Q m = (case m of Inl er \<Rightarrow> True | Inr x \<Rightarrow> Q x)"

text \<open>\<open>returns Q m\<close>: the computation \<open>m\<close> returns, and its result satisfies \<open>Q\<close>.\<close>

definition returns :: "('a \<Rightarrow> bool) \<Rightarrow> 'a res \<Rightarrow> bool" where
  "returns Q m = (case m of Inl er \<Rightarrow> False | Inr x \<Rightarrow> Q x)"

text \<open>Figures with which the constraint analysis divides by nothing that is zero: positive
  speeds, field lengths (the landing field longer than the 600 ft that are subtracted from
  it), lift and drag coefficients and propeller efficiency, and a number of engines that
  is neither zero nor one.\<close>

definition constraints_ready ::
  "pyval \<Rightarrow> pyval \<Rightarrow> pyval \<Rightarrow> pyval \<Rightarrow> pyval \<Rightarrow> pyval \<Rightarrow> pyval \<Rightarrow> real \<Rightarrow> pyval \<Rightarrow> pyval
     \<Rightarrow> pyval \<Rightarrow> pyval \<Rightarrow> bool" where
  "constraints_ready V_stall BFL LFL CLc CLt CLl cd0 k1 vcr hcr eta cfg \<longleftrightarrow>
     is_pos V_stall \<and> is_pos BFL
     \<and> (case num LFL of Inl er \<Rightarrow> False | Inr x \<Rightarrow> 600 < x)
     \<and> is_pos CLc \<and> is_pos CLt \<and> is_pos CLl \<and> is_pos cd0 \<and> 0 \<le> k1
     \<and> is_pos vcr \<and> is_num hcr \<and> is_pos eta
     \<and> (case num (cfg_get cfg [''propulsion'', ''number_of_engines'']) of
           Inl er \<Rightarrow> False | Inr n \<Rightarrow> n \<noteq> 0 \<and> n \<noteq> 1)
     \<and> is_num (cfg_get cfg [''performance_requirements'', ''rate_of_climb_ceiling_fpm''])
     \<and> is_num (cfg_get cfg [''mission_requirements'', ''service_ceiling_ft''])"

text \<open>An aircraft whose attributes read by one pass of the sizing loop are numbers, those of
  the constraint analysis as above, with a positive lift augmentation where the wing is
  sized with it: sufficient for a pass of the loop to return from a positive guess.\<close>

definition sizing_ready :: "pyval \<Rightarrow> aircraft \<Rightarrow> bool" where
  "sizing_ready mcfg ac \<longleftrightarrow>
     mission_ready mcfg ac
     \<and> is_num (W_payload_lb ac) \<and> is_num (AR ac)
     \<and> constraints_ready (V_stall_kts ac) (BFL_ft ac) (LFL_ft ac) (CLmax_clean ac) (CLmax_TO ac)
           (CLmax_land ac) (CD0 ac) (K1 ac) (cruise_speed_kts ac) (cruise_alt_ft ac)
           (prop_efficiency (tech ac)) (config ac)
     \<and> (truthy (dep_enabled ac) \<and> truthy (dep_use_for_wing_sizing ac) \<longrightarrow>
           returns (\<lambda>aug. 0 < aug) (get_lift_augmentation_factor ac True))
     \<and> is_num (battery_specific_energy_Wh_kg (tech ac))
     \<and> is_num (battery_specific_power_kW_kg (tech ac))
     \<and> is_num (battery_DOD (tech ac))"


text \<open>The fixed-point iteration in the words of the specification, to compare the loop
  with: the state before pass \<open>k\<close>, where each pass replaces the guess by
  \<open>0.7 * TOGW_old + 0.3 * TOGW_new\<close>; \<open>relaxed_guess\<close> starts it from the guess 15000.\<close>

fun relaxed_from ::
  "pyval \<Rightarrow> (string \<times> real) list \<Rightarrow> aircraft \<times> real \<Rightarrow> nat \<Rightarrow> (aircraft \<times> real) res" where
  "relaxed_from mcfg prof start 0 = Inr start"
| "relaxed_from mcfg prof start (Suc k) =
     bindE (relaxed_from mcfg prof start k) (\<lambda>(ac_k, TOGW_old).
     bindE (sizing_iteration mcfg prof ac_k TOGW_old) (\<lambda>(ac', it).
     Inr (ac', 0.7 * TOGW_old + 0.3 * it_TOGW_new_lb it)))"

definition relaxed_guess ::
  "pyval \<Rightarrow> (string \<times> real) list \<Rightarrow> aircraft \<Rightarrow> nat \<Rightarrow> (aircraft \<times> real) res" where
  "relaxed_guess mcfg prof ac k = relaxed_from mcfg prof (ac, 15000) k"


section \<open>The exception monad\<close>

lemma bindE_Inr [simp]: "bindE (Inr x) f = f x"
  by (simp add: bindE_def)

lemma bindE_Inl [simp]: "bindE (Inl er) f = Inl er"
  by (simp add: bindE_def)

lemma bindE_eq_Inr_iff: "bindE m f = Inr y \<longleftrightarrow> (\<exists>x. m = Inr x \<and> f x = Inr y)"
  by (cases m) simp_all

lemma bindE_eq_Inl_iff:
  "bindE m f = Inl er \<longleftrightarrow> (m = Inl er \<or> (\<exists>x. m = Inr x \<and> f x = Inl er))"
  by (cases m) simp_all

lemma num_error: "num v = Inl er \<Longrightarrow> er = TypeError"
  by (cases v) simp_all

section \<open>Power splits\<close>



text \<open>With a motor efficiency of zero the method raises, whatever the demand and the
  ratio.\<close>

lemma parallel_split_zero_efficiency:
  assumes "arch pt = ParallelHybrid"
    and "GT_BSFC_kg_kWh (powertrain.tech pt) = PNum bsfc"
    and "EM_efficiency (powertrain.tech pt) = PNum 0"
  shows "get_power_split pt P hp = Inl ZeroDivisionError"
  using assms
  by (simp add: get_power_split_def parallel_get_power_split_def div_by_def py_div_def Let_def)



text \<open>With a motor or generator efficiency of zero, \<open>size_components\<close> raises.\<close>

lemma serial_size_zero_efficiency:
  assumes "arch pt0 = SerialHybrid"
    and "EM_efficiency (powertrain.tech pt0) = PNum em_eff"
    and "GEN_efficiency (powertrain.tech pt0) = PNum gen_eff"
    and "em_eff = 0 \<or> gen_eff = 0"
  shows "size_components pt0 P_shaft hp0 = Inl ZeroDivisionError"
  using assms
  by (auto simp add: size_components_def serial_size_components_def div_by_def py_div_def Let_def)

text \<open>
  Claim C10. For the dual-motor class, \<open>get_power_split\<close> called while the cruise motors
  are still unset (before \<open>size_components\<close> has ever run) raises nothing: it returns a
  split whose four fields are zero, whatever the power demand.
\<close>

theorem dual_split_before_sizing:
  assumes "arch pt = DualMotorDEP" and "cruise_motors pt = None"
  shows "get_power_split pt P hp =
           Inr \<lparr> P_GT_kW_s = 0, P_EM_kW_s = 0, fuel_rate_kg_s = 0, battery_power_W = 0 \<rparr>"
  using assms by (simp add: get_power_split_def dual_get_power_split_def)

theorem dual_split_before_sizing_witness:
  "arch (base_init DualMotorDEP example_tech) = DualMotorDEP
   \<and> cruise_motors (base_init DualMotorDEP example_tech) = None
   \<and> get_power_split (base_init DualMotorDEP example_tech) 800 0.5 =
       Inr \<lparr> P_GT_kW_s = 0, P_EM_kW_s = 0, fuel_rate_kg_s = 0, battery_power_W = 0 \<rparr>"
proof -
  have a: "arch (base_init DualMotorDEP example_tech) = DualMotorDEP"
    by (simp add: base_init_def)
  have b: "cruise_motors (base_init DualMotorDEP example_tech) = None"
    by (simp add: base_init_def)
  from dual_split_before_sizing [OF a b, of 800 "0.5"] a b show ?thesis
    by blast
qed

section \<open>Lift augmentation\<close>



section \<open>Battery sizing\<close>




section \<open>Totality: when the computations return\<close>

lemma ok_num: "is_num v \<Longrightarrow> \<not> isl (num v)"
  by (cases v) simp_all

lemma is_nonzeroD: "is_nonzero v \<Longrightarrow> \<exists>x. num v = Inr x \<and> x \<noteq> 0"
  by (auto simp: is_nonzero_def split: sum.splits)

lemma is_posD: "is_pos v \<Longrightarrow> \<exists>x. num v = Inr x \<and> 0 < x"
  by (auto simp: is_pos_def split: sum.splits)

lemma is_nonzero_num: "is_nonzero v \<Longrightarrow> is_num v"
  by (cases v) (simp_all add: is_nonzero_def)

lemma is_pos_nonzero: "is_pos v \<Longrightarrow> is_nonzero v"
  by (auto simp: is_pos_def is_nonzero_def split: sum.splits)

lemma ok_py_div: "y \<noteq> 0 \<Longrightarrow> \<not> isl (py_div x y)"
  by (simp add: py_div_def)

lemma ok_div_by: "is_nonzero v \<Longrightarrow> \<not> isl (div_by x v)"
  by (auto dest!: is_nonzeroD simp: div_by_def py_div_def)

lemma ok_bindE: "\<not> isl m \<Longrightarrow> (\<And>x. m = Inr x \<Longrightarrow> \<not> isl (f x)) \<Longrightarrow> \<not> isl (bindE m f)"
  by (cases m) simp_all

lemma ok_Let: "(\<And>x. \<not> isl (f x)) \<Longrightarrow> \<not> isl (Let a f)"
  by (simp add: Let_def)

lemma ok_if: "\<not> isl a \<Longrightarrow> \<not> isl b \<Longrightarrow> \<not> isl (if c then a else b)"
  by simp

lemma ok_Inr: "\<not> isl (Inr x)"
  by simp

lemma ok_prod: "(\<And>a b. \<not> isl (f a b)) \<Longrightarrow> \<not> isl (case_prod f p)"
  by (cases p) simp

lemmas ok_intros = ok_bindE ok_Let ok_if ok_Inr ok_prod

lemma is_numD: "is_num v \<Longrightarrow> \<exists>x. num v = Inr x"
  by (cases v) simp_all

lemma ok_get_power_split: "pt_ready pt \<Longrightarrow> \<not> isl (get_power_split pt P hp)"
  unfolding pt_ready_def
  by (cases "arch pt")
     (auto dest!: is_numD is_nonzeroD simp: get_power_split_def conventional_get_power_split_def
        parallel_get_power_split_def serial_get_power_split_def electric_get_power_split_def
        multi_get_power_split_def div_by_def py_div_def Let_def)

lemma ok_size_components:
  assumes "pt_ready pt"
  shows "\<not> isl (size_components pt P hp)"
  using assms unfolding pt_ready_def
  by (cases "arch pt")
     (auto dest!: is_numD is_nonzeroD simp: size_components_def conventional_size_components_def
        parallel_size_components_def serial_size_components_def electric_size_components_def
        multi_size_components_def div_by_def py_div_def Let_def)

lemma ok_lift_aug: "mission_ready mcfg ac \<Longrightarrow> \<not> isl (get_lift_augmentation_factor ac blown)"
  unfolding mission_ready_def
  by (auto dest!: is_numD simp: get_lift_augmentation_factor_def)

lemma ok_highlift: "mission_ready mcfg ac \<Longrightarrow> \<not> isl (get_highlift_motor_power mcfg ac blown)"
  unfolding mission_ready_def
  by (auto dest!: is_numD simp: get_highlift_motor_power_def)

lemma ok_the_powertrain: "mission_ready mcfg ac \<Longrightarrow> \<not> isl (the_powertrain ac)"
  unfolding mission_ready_def the_powertrain_def by (auto split: option.splits)

lemma ok_split_of: "mission_ready mcfg ac \<Longrightarrow> the_powertrain ac = Inr pt \<Longrightarrow> \<not> isl (get_power_split pt P hp)"
  unfolding mission_ready_def the_powertrain_def
  by (auto split: option.splits simp: ok_get_power_split)

lemma ready_fields:
  assumes "mission_ready mcfg ac"
  shows "\<not> isl (num (cruise_speed_kts ac))" "\<not> isl (num (range_nm ac))" "\<not> isl (num (CD0 ac))"
    "\<not> isl (num (CLmax_clean ac))" "\<not> isl (num (CLmax_TO ac))" "\<not> isl (num (CLmax_land ac))"
    "\<not> isl (num (prop_efficiency (tech ac)))"
  using assms unfolding mission_ready_def by (simp_all add: ok_num)

lemma seg_fields:
  assumes "seg_ready seg"
  shows "\<not> isl (num (altitude_start_ft seg))" "\<not> isl (num (altitude_end_ft seg))"
  using assms unfolding seg_ready_def by (simp_all add: ok_num)

lemmas ok_mission = ok_lift_aug ok_highlift ok_the_powertrain ok_split_of ready_fields

lemma ok_climb:
  assumes "mission_ready mcfg ac" "seg_ready seg"
  shows "\<not> isl (simulate_climb_segment mcfg ac seg W S)"
  unfolding simulate_climb_segment_def
  by (intro ok_intros ok_mission [OF assms(1)] seg_fields [OF assms(2)]; assumption)

lemma ok_cruise:
  assumes "mission_ready mcfg ac" "seg_ready seg"
  shows "\<not> isl (simulate_cruise_segment mcfg ac seg W S)"
  unfolding simulate_cruise_segment_def
  by (intro ok_intros ok_mission [OF assms(1)] seg_fields [OF assms(2)]; assumption)

lemma ok_descent:
  assumes "mission_ready mcfg ac" "seg_ready seg"
  shows "\<not> isl (simulate_descent_segment mcfg ac seg W S)"
  unfolding simulate_descent_segment_def
  by (intro ok_intros ok_mission [OF assms(1)] seg_fields [OF assms(2)]; assumption)

lemma ok_takeoff:
  assumes "mission_ready mcfg ac" "seg_ready seg"
  shows "\<not> isl (simulate_takeoff_segment mcfg ac seg W S)"
  unfolding simulate_takeoff_segment_def
  by (intro ok_intros ok_mission [OF assms(1)] seg_fields [OF assms(2)]; assumption)

lemma ok_loiter:
  assumes "mission_ready mcfg ac" "seg_ready seg"
  shows "\<not> isl (simulate_loiter_segment mcfg ac seg W S)"
  unfolding simulate_loiter_segment_def
  by (intro ok_intros ok_mission [OF assms(1)] seg_fields [OF assms(2)]; assumption)

lemma ok_landing:
  assumes "mission_ready mcfg ac" "seg_ready seg"
  shows "\<not> isl (simulate_landing_segment mcfg ac seg W S)"
  unfolding simulate_landing_segment_def
  by (intro ok_intros ok_mission [OF assms(1)] seg_fields [OF assms(2)]; assumption)

lemma ok_simulate_segment:
  assumes "mission_ready mcfg ac" "seg_ready seg"
  shows "\<not> isl (simulate_segment mcfg ac seg W S)"
proof -
  from assms(2) have "name seg \<in> set canonical_names"
    by (simp add: seg_ready_def)
  then show ?thesis
    using ok_climb [OF assms, of W S] ok_cruise [OF assms, of W S] ok_descent [OF assms, of W S]
      ok_takeoff [OF assms, of W S] ok_loiter [OF assms, of W S] ok_landing [OF assms, of W S]
    by (auto simp: simulate_segment_def canonical_names_def bindE_def split: sum.splits)
qed

lemma ok_mission_loop:
  assumes "mission_ready mcfg ac" "\<forall>seg\<in>set segs. seg_ready seg"
  shows "\<not> isl (mission_loop mcfg ac S segs st)"
  using assms(2)
proof (induction segs arbitrary: st)
  case Nil
  then show ?case by simp
next
  case (Cons seg rest)
  obtain W mr where st: "st = (W, mr)" by (cases st)
  from Cons show ?case
    unfolding st mission_loop.simps
    by (intro ok_intros ok_simulate_segment assms(1)) auto
qed

lemma ok_simulate_mission:
  assumes "mission_ready mcfg ac" "\<forall>seg\<in>set segs. seg_ready seg"
  shows "\<not> isl (simulate_mission mcfg ac segs TOGW S)"
  unfolding simulate_mission_def
  by (intro ok_intros ok_mission_loop assms)

lemma create_mission_ready:
  assumes "is_num (cruise_alt_ft ac)"
  shows "\<forall>seg\<in>set (create_mission ac prof bl). seg_ready seg"
  using assms
  by (simp add: create_mission_def Let_def MissionSegment_def seg_ready_def canonical_names_def)

lemma create_mission_names: "map name (create_mission ac prof bl) = canonical_names"
  by (simp add: create_mission_def Let_def MissionSegment_def canonical_names_def)

section \<open>Mission simulation\<close>

lemma post_bindE: "(\<And>x. m = Inr x \<Longrightarrow> post Q (f x)) \<Longrightarrow> post Q (bindE m f)"
  by (cases m) (simp_all add: post_def)
lemma post_Let: "(\<And>x. x = a \<Longrightarrow> post Q (f x)) \<Longrightarrow> post Q (Let a f)"
  by (simp add: Let_def)
lemma post_if: "post Q a \<Longrightarrow> post Q b \<Longrightarrow> post Q (if c then a else b)"
  by simp
lemma post_Inr: "Q x \<Longrightarrow> post Q (Inr x)"
  by (simp add: post_def)
lemma post_Inl: "post Q (Inl er)"
  by (simp add: post_def)
lemma post_prod: "(\<And>a b. p = (a, b) \<Longrightarrow> post Q (f a b)) \<Longrightarrow> post Q (case_prod f p)"
  by (cases p) simp
lemma postD: "post Q m \<Longrightarrow> m = Inr x \<Longrightarrow> Q x"
  by (simp add: post_def)
lemmas post_intros = post_bindE post_Let post_if post_prod post_Inl

lemma cruise_keeps_segment:
  "post (\<lambda>(seg', r). \<exists>d. seg' = seg \<lparr> distance_nm := d \<rparr>) (simulate_cruise_segment mcfg ac seg W S)"
  unfolding simulate_cruise_segment_def
  by (intro post_intros) (rule post_Inr, simp, blast)

lemma simulate_segment_keeps:
  assumes "simulate_segment mcfg ac seg W S = Inr (seg', r)"
  shows "\<exists>d. seg' = seg \<lparr> distance_nm := d \<rparr>"
proof (cases "name seg = ''cruise''")
  case True
  with assms postD [OF cruise_keeps_segment, of mcfg ac seg W S "(seg', r)"] show ?thesis
    by (simp add: simulate_segment_def)
next
  case False
  with assms have "seg' = seg"
    by (auto simp: simulate_segment_def bindE_eq_Inr_iff split: if_splits)
  then have "seg' = seg \<lparr> distance_nm := distance_nm seg \<rparr>" by simp
  then show ?thesis ..
qed

lemma simulate_segment_unknown:
  "name seg \<notin> set canonical_names \<Longrightarrow> simulate_segment mcfg ac seg W S = Inl ValueError"
  by (simp add: simulate_segment_def canonical_names_def)

lemma mission_loop_append:
  "mission_loop mcfg ac S (xs @ ys) st = bindE (mission_loop mcfg ac S xs st) (mission_loop mcfg ac S ys)"
proof (induction xs arbitrary: st)
  case Nil
  show ?case by simp
next
  case (Cons x xs)
  obtain W mr where st: "st = (W, mr)" by (cases st)
  show ?case
    unfolding st
    by (cases "simulate_segment mcfg ac x W S") (auto simp: Cons.IH)
qed

text \<open>What one run of the loop over \<open>segs\<close> adds to the state.\<close>

lemma mission_loop_inv:
  assumes "mission_loop mcfg ac S segs (W, mr) = Inr (W', mr')"
  shows "\<exists>out. segments mr' = segments mr @ out \<and> length out = length segs
           \<and> map name out = map name segs
           \<and> W' = W - sum_list (map fuel_lb out)
           \<and> total_fuel_lb mr' = total_fuel_lb mr + sum_list (map fuel_lb out)
           \<and> total_battery_Wh mr' = total_battery_Wh mr + sum_list (map battery_Wh out)
           \<and> total_time_sec mr' = total_time_sec mr + sum_list (map time_sec out)"
  using assms
proof (induction segs arbitrary: W mr)
  case Nil
  then show ?case by simp
next
  case (Cons seg rest)
  from Cons.prems obtain seg' t f b where
    step: "simulate_segment mcfg ac seg W S = Inr (seg', t, f, b)"
    and rest: "mission_loop mcfg ac S rest
         (W - f,
          \<lparr> total_fuel_lb = total_fuel_lb mr + f,
            total_battery_Wh = total_battery_Wh mr + b,
            total_time_sec = total_time_sec mr + t,
            segments = segments mr @ [seg' \<lparr> time_sec := t, fuel_lb := f, battery_Wh := b \<rparr>] \<rparr>)
         = Inr (W', mr')"
    by (auto simp: bindE_eq_Inr_iff)
  from simulate_segment_keeps [OF step] have nm: "name seg' = name seg"
    by auto
  from Cons.IH [OF rest] obtain out where
    "segments mr' = (segments mr @ [seg' \<lparr> time_sec := t, fuel_lb := f, battery_Wh := b \<rparr>]) @ out"
    "length out = length rest" "map name out = map name rest"
    "W' = W - f - sum_list (map fuel_lb out)"
    "total_fuel_lb mr' = total_fuel_lb mr + f + sum_list (map fuel_lb out)"
    "total_battery_Wh mr' = total_battery_Wh mr + b + sum_list (map battery_Wh out)"
    "total_time_sec mr' = total_time_sec mr + t + sum_list (map time_sec out)"
    by auto
  with nm show ?case
    by (intro exI [of _ "seg' \<lparr> time_sec := t, fuel_lb := f, battery_Wh := b \<rparr> # out"]) simp
qed

lemma simulate_mission_prefix:
  assumes "simulate_mission mcfg ac segs TOGW S = Inr r" and "k \<le> length segs"
  shows "\<exists>mr. mission_loop mcfg ac S (take k segs)
                (TOGW, \<lparr> total_fuel_lb = 0, total_battery_Wh = 0, total_time_sec = 0, segments = [] \<rparr>)
              = Inr (TOGW - sum_list (map fuel_lb (take k (segments r))), mr)
            \<and> segments mr = take k (segments r)
            \<and> mission_loop mcfg ac S (drop k segs)
                 (TOGW - sum_list (map fuel_lb (take k (segments r))), mr) = Inr (TOGW - total_fuel_lb r, r)"
proof -
  let ?st0 = "(TOGW, \<lparr> total_fuel_lb = 0, total_battery_Wh = 0, total_time_sec = 0, segments = [] \<rparr>)"
  from assms(1) obtain Wf where whole: "mission_loop mcfg ac S segs ?st0 = Inr (Wf, r)"
    by (auto simp: simulate_mission_def bindE_eq_Inr_iff)
  from mission_loop_inv [OF whole] have Wf: "Wf = TOGW - total_fuel_lb r"
    by auto
  have "segs = take k segs @ drop k segs" by simp
  with whole have "bindE (mission_loop mcfg ac S (take k segs) ?st0) (mission_loop mcfg ac S (drop k segs))
                     = Inr (Wf, r)"
    by (metis mission_loop_append)
  then obtain Wk mrk where pre: "mission_loop mcfg ac S (take k segs) ?st0 = Inr (Wk, mrk)"
    and suf: "mission_loop mcfg ac S (drop k segs) (Wk, mrk) = Inr (Wf, r)"
    by (auto simp: bindE_eq_Inr_iff)
  from mission_loop_inv [OF pre] assms(2) obtain out1 where
    o1: "segments mrk = out1" "length out1 = k" "Wk = TOGW - sum_list (map fuel_lb out1)"
    by auto
  from mission_loop_inv [OF suf] obtain out2 where "segments r = segments mrk @ out2"
    by auto
  with o1 have "take k (segments r) = out1"
    by simp
  with o1 pre suf Wf show ?thesis
    by auto
qed

lemma simulate_mission_step:
  assumes "simulate_mission mcfg ac segs TOGW S = Inr r" and "k < length segs"
  shows "\<exists>seg'. simulate_segment mcfg ac (segs ! k)
                  (TOGW - sum_list (map fuel_lb (take k (segments r)))) S
               = Inr (seg', time_sec (segments r ! k), fuel_lb (segments r ! k),
                      battery_Wh (segments r ! k))"
proof -
  from simulate_mission_prefix [OF assms(1), of k] assms(2) obtain mr where
    mr: "segments mr = take k (segments r)"
    and suf: "mission_loop mcfg ac S (drop k segs)
                 (TOGW - sum_list (map fuel_lb (take k (segments r))), mr) = Inr (TOGW - total_fuel_lb r, r)"
    by auto
  from assms(2) have dk: "drop k segs = segs ! k # drop (Suc k) segs"
    by (simp add: Cons_nth_drop_Suc)
  let ?W = "TOGW - sum_list (map fuel_lb (take k (segments r)))"
  from suf [unfolded dk] obtain seg' t f b where
    step: "simulate_segment mcfg ac (segs ! k) ?W S = Inr (seg', t, f, b)"
    and rest: "mission_loop mcfg ac S (drop (Suc k) segs)
         (?W - f,
          \<lparr> total_fuel_lb = total_fuel_lb mr + f,
            total_battery_Wh = total_battery_Wh mr + b,
            total_time_sec = total_time_sec mr + t,
            segments = segments mr @ [seg' \<lparr> time_sec := t, fuel_lb := f, battery_Wh := b \<rparr>] \<rparr>)
         = Inr (TOGW - total_fuel_lb r, r)"
    by (auto simp: bindE_eq_Inr_iff)
  from mission_loop_inv [OF rest] obtain out where
    "segments r = (segments mr @ [seg' \<lparr> time_sec := t, fuel_lb := f, battery_Wh := b \<rparr>]) @ out"
    by auto
  moreover have "length (segments mr) = k"
  proof -
    from assms(1) obtain Wf where "mission_loop mcfg ac S segs
        (TOGW, \<lparr> total_fuel_lb = 0, total_battery_Wh = 0, total_time_sec = 0, segments = [] \<rparr>) = Inr (Wf, r)"
      by (auto simp: simulate_mission_def bindE_eq_Inr_iff)
    from mission_loop_inv [OF this] have "length (segments r) = length segs" by auto
    with mr assms(2) show ?thesis by simp
  qed
  ultimately have "segments r ! k = seg' \<lparr> time_sec := t, fuel_lb := f, battery_Wh := b \<rparr>"
    by (simp add: nth_append)
  with step show ?thesis
    by auto
qed

text \<open>
  Claim C7. \<open>create_mission\<close> builds the six segments in the order takeoff, climb, cruise,
  descent, loiter, landing, and \<open>simulate_mission\<close> processes the segments it is given
  strictly in their order: when it returns, the stored segments carry the names of the
  given ones in the same order; after the first \<open>k\<close> segments the running weight is the
  initial weight minus the fuel burned by those \<open>k\<close> segments (battery energy is never
  subtracted); segment \<open>k\<close> is simulated at exactly that running weight, and its time,
  fuel and battery energy are the ones stored; the three totals are the sums of the
  stored per-segment values. A segment with an unknown name raises \<open>ValueError\<close> as soon
  as the loop reaches it.
\<close>

theorem simulate_mission_weight_and_totals:
  "map name (create_mission ac prof bl) = canonical_names
   \<and> (simulate_mission mcfg ac segs TOGW S = Inr r \<longrightarrow>
        map name (segments r) = map name segs
        \<and> total_fuel_lb r = sum_list (map fuel_lb (segments r))
        \<and> total_battery_Wh r = sum_list (map battery_Wh (segments r))
        \<and> total_time_sec r = sum_list (map time_sec (segments r))
        \<and> (\<forall>k\<le>length segs. \<exists>mr.
              mission_loop mcfg ac S (take k segs)
                (TOGW, \<lparr> total_fuel_lb = 0, total_battery_Wh = 0, total_time_sec = 0, segments = [] \<rparr>)
              = Inr (TOGW - sum_list (map fuel_lb (take k (segments r))), mr)
              \<and> segments mr = take k (segments r))
        \<and> (\<forall>k<length segs. \<exists>seg'.
              simulate_segment mcfg ac (segs ! k)
                (TOGW - sum_list (map fuel_lb (take k (segments r)))) S
              = Inr (seg', time_sec (segments r ! k), fuel_lb (segments r ! k),
                     battery_Wh (segments r ! k))))
   \<and> (name seg \<notin> set canonical_names \<and>
        mission_loop mcfg ac S pre
          (TOGW, \<lparr> total_fuel_lb = 0, total_battery_Wh = 0, total_time_sec = 0, segments = [] \<rparr>) = Inr st
      \<longrightarrow> simulate_mission mcfg ac (pre @ seg # rest) TOGW S = Inl ValueError)"
proof (intro conjI impI allI)
  show "map name (create_mission ac prof bl) = canonical_names"
    by (rule create_mission_names)
next
  assume run: "simulate_mission mcfg ac segs TOGW S = Inr r"
  then obtain Wf where whole: "mission_loop mcfg ac S segs
      (TOGW, \<lparr> total_fuel_lb = 0, total_battery_Wh = 0, total_time_sec = 0, segments = [] \<rparr>) = Inr (Wf, r)"
    by (auto simp: simulate_mission_def bindE_eq_Inr_iff)
  from mission_loop_inv [OF whole]
  show "map name (segments r) = map name segs"
    and "total_fuel_lb r = sum_list (map fuel_lb (segments r))"
    and "total_battery_Wh r = sum_list (map battery_Wh (segments r))"
    and "total_time_sec r = sum_list (map time_sec (segments r))"
    by auto
  fix k
  { assume "k \<le> length segs"
    from simulate_mission_prefix [OF run this]
    show "\<exists>mr. mission_loop mcfg ac S (take k segs)
                (TOGW, \<lparr> total_fuel_lb = 0, total_battery_Wh = 0, total_time_sec = 0, segments = [] \<rparr>)
              = Inr (TOGW - sum_list (map fuel_lb (take k (segments r))), mr)
              \<and> segments mr = take k (segments r)"
      by blast }
  { assume "k < length segs"
    from simulate_mission_step [OF run this]
    show "\<exists>seg'. simulate_segment mcfg ac (segs ! k)
                (TOGW - sum_list (map fuel_lb (take k (segments r)))) S
              = Inr (seg', time_sec (segments r ! k), fuel_lb (segments r ! k),
                     battery_Wh (segments r ! k))" . }
next
  assume "name seg \<notin> set canonical_names \<and>
        mission_loop mcfg ac S pre
          (TOGW, \<lparr> total_fuel_lb = 0, total_battery_Wh = 0, total_time_sec = 0, segments = [] \<rparr>) = Inr st"
  then show "simulate_mission mcfg ac (pre @ seg # rest) TOGW S = Inl ValueError"
    by (cases st) (simp add: simulate_mission_def mission_loop_append simulate_segment_unknown)
qed

lemma example_mission_ready:
  "a \<noteq> DualMotorDEP \<Longrightarrow> mission_ready example_cfg (example_aircraft example_tech a)"
  by (simp add: mission_ready_def example_aircraft_def example_tech_def pt_ready_def
      is_nonzero_def base_init_def multi_init_def)

theorem simulate_mission_weight_and_totals_witness:
  "\<exists>r. simulate_mission example_cfg (example_aircraft example_tech Conventional)
          (create_mission (example_aircraft example_tech Conventional) [] None) 15000 300 = Inr r
       \<and> map name (segments r) = canonical_names
       \<and> total_fuel_lb r = sum_list (map fuel_lb (segments r))
       \<and> total_battery_Wh r = sum_list (map battery_Wh (segments r))
       \<and> total_time_sec r = sum_list (map time_sec (segments r))"
proof -
  let ?ac = "example_aircraft example_tech Conventional"
  let ?segs = "create_mission ?ac [] None"
  have "is_num (cruise_alt_ft ?ac)"
    by (simp add: example_aircraft_def)
  then have "\<forall>seg\<in>set ?segs. seg_ready seg"
    by (rule create_mission_ready)
  with example_mission_ready [of Conventional]
  have "\<not> isl (simulate_mission example_cfg ?ac ?segs 15000 300)"
    by (intro ok_simulate_mission) simp_all
  then obtain r where run: "simulate_mission example_cfg ?ac ?segs 15000 300 = Inr r"
    by (cases "simulate_mission example_cfg ?ac ?segs 15000 300") auto
  from simulate_mission_weight_and_totals [of ?ac "[]" None example_cfg ?segs 15000 300 r] run
  have "map name ?segs = canonical_names" "map name (segments r) = map name ?segs"
    "total_fuel_lb r = sum_list (map fuel_lb (segments r))"
    "total_battery_Wh r = sum_list (map battery_Wh (segments r))"
    "total_time_sec r = sum_list (map time_sec (segments r))"
    by blast+
  with run show ?thesis
    by auto
qed

section \<open>The sizing loop\<close>

lemma size_cruise_motors_keeps:
  assumes "size_cruise_motors pt P hp = Inr pt'"
  shows "arch pt' = arch pt \<and> powertrain.tech pt' = powertrain.tech pt
         \<and> num_engines pt' = num_engines pt \<and> powertrain.config pt' = powertrain.config pt
         \<and> cruise_architecture pt' = cruise_architecture pt
         \<and> highlift_motors pt' = highlift_motors pt
         \<and> m_highlift_lb pt' = m_highlift_lb pt"
  using assms
  by (auto simp: size_cruise_motors_def bindE_eq_Inr_iff Let_def split: if_splits)

lemma size_components_keeps:
  assumes "size_components pt P hp = Inr pt'"
  shows "arch pt' = arch pt \<and> powertrain.tech pt' = powertrain.tech pt
         \<and> num_engines pt' = num_engines pt \<and> powertrain.config pt' = powertrain.config pt
         \<and> cruise_architecture pt' = cruise_architecture pt
         \<and> highlift_motors pt' = highlift_motors pt
         \<and> m_highlift_lb pt' = m_highlift_lb pt"
proof (cases "arch pt")
  case DualMotorDEP
  with assms size_cruise_motors_keeps [of pt P hp pt'] show ?thesis
    by (simp add: size_components_def)
next
  case Conventional
  with assms show ?thesis
    by (auto simp: size_components_def conventional_size_components_def bindE_eq_Inr_iff)
next
  case ParallelHybrid
  with assms show ?thesis
    by (auto simp: size_components_def parallel_size_components_def bindE_eq_Inr_iff Let_def)
next
  case SerialHybrid
  with assms show ?thesis
    by (auto simp: size_components_def serial_size_components_def bindE_eq_Inr_iff Let_def)
next
  case FullyElectric
  with assms show ?thesis
    by (auto simp: size_components_def electric_size_components_def bindE_eq_Inr_iff)
next
  case MultiEngine
  with assms show ?thesis
    by (auto simp: size_components_def multi_size_components_def bindE_eq_Inr_iff Let_def)
qed


lemma pt_ready_size_components:
  "pt_ready pt \<Longrightarrow> size_components pt P hp = Inr pt' \<Longrightarrow> pt_ready pt'"
  by (drule size_components_keeps) (simp add: pt_ready_def)

lemma calculate_OEW_result:
  assumes "calculate_OEW ac TOGW S = Inr (ac', OEW)"
  shows "\<exists>w. ac' = ac \<lparr> weight_breakdown := w \<rparr>"
proof -
  have "post (\<lambda>(ac', OEW). \<exists>w. ac' = ac \<lparr> weight_breakdown := w \<rparr>) (calculate_OEW ac TOGW S)"
    unfolding calculate_OEW_def
    by (intro post_intros) (rule post_Inr, simp, blast)
  from postD [OF this assms] show ?thesis by simp
qed

text \<open>The shape of one pass: the powertrain is re-sized, the breakdown is stored, and the
  rest is computed from the aircraft so updated.\<close>

lemma sizing_iteration_shape:
  assumes "sizing_iteration mcfg prof ac g = Inr (ac', it)"
  shows "\<exists>pt P hp pt' w mr bat.
           powertrain ac = Some pt \<and> size_components pt P hp = Inr pt'
           \<and> ac' = ac \<lparr> powertrain := Some pt', weight_breakdown := w \<rparr>
           \<and> simulate_mission mcfg ac' (create_mission ac' prof None) g (it_S_wing_ft2 it) = Inr mr
           \<and> battery_sizing (tech ac') mr = Inr bat
           \<and> it_mission it = mr \<and> it_battery it = bat
           \<and> it_W_fuel_lb it = total_fuel_lb mr * 1.06
           \<and> it_error it = np_div \<bar>it_TOGW_new_lb it - g\<bar> g"
proof -
  have "post (\<lambda>(ac', it). \<exists>pt P hp pt' w mr bat.
           powertrain ac = Some pt \<and> size_components pt P hp = Inr pt'
           \<and> ac' = ac \<lparr> powertrain := Some pt', weight_breakdown := w \<rparr>
           \<and> simulate_mission mcfg ac' (create_mission ac' prof None) g (it_S_wing_ft2 it) = Inr mr
           \<and> battery_sizing (tech ac') mr = Inr bat
           \<and> it_mission it = mr \<and> it_battery it = bat
           \<and> it_W_fuel_lb it = total_fuel_lb mr * 1.06
           \<and> it_error it = np_div \<bar>it_TOGW_new_lb it - g\<bar> g) (sizing_iteration mcfg prof ac g)"
    unfolding sizing_iteration_def
    apply (intro post_intros)
    apply (rule post_Inr)
    apply (clarsimp simp: the_powertrain_def split: option.splits)
    apply (drule calculate_OEW_result)
    apply (clarsimp)
    apply blast
    done
  from postD [OF this assms] show ?thesis by simp
qed

lemma is_numE: "is_num v \<Longrightarrow> (\<And>x. num v = Inr x \<Longrightarrow> thesis) \<Longrightarrow> thesis"
  by (cases v) simp_all

lemma not_islE: "\<not> isl m \<Longrightarrow> (\<And>x. m = Inr x \<Longrightarrow> thesis) \<Longrightarrow> thesis"
  by (cases m) simp_all

subsection \<open>The constraint analysis returns on positive figures\<close>

lemma rho_pos: "0 < rho_of (atmosisa h)"
  by (auto simp: rho_of_def atmosisa_def Let_def intro!: divide_pos_pos mult_pos_pos)

lemma ret_bind_num:
  "num v = Inr a \<Longrightarrow> returns Q (f a) \<Longrightarrow> returns Q (bindE (num v) f)"
  by simp

lemma ret_bind_py_div:
  "y \<noteq> 0 \<Longrightarrow> (\<And>q. q = x / y \<Longrightarrow> returns Q (f q)) \<Longrightarrow> returns Q (bindE (py_div x y) f)"
  by (simp add: py_div_def)

lemma ret_Let: "(\<And>x. x = a \<Longrightarrow> returns Q (f x)) \<Longrightarrow> returns Q (Let a f)"
  by (simp add: Let_def)

lemma ret_Inr: "Q x \<Longrightarrow> returns Q (Inr x)"
  by (simp add: returns_def)

lemma returnsD: "returns Q m \<Longrightarrow> \<exists>x. m = Inr x \<and> Q x"
  by (cases m) (simp_all add: returns_def)

lemma returns_not_isl: "returns Q m \<Longrightarrow> \<not> isl m"
  by (cases m) (simp_all add: returns_def)

lemma pos_ne: "0 < (a::real) \<Longrightarrow> a \<noteq> 0"
  by simp

lemma pos_min: "0 < (a::real) \<Longrightarrow> 0 < b \<Longrightarrow> 0 < min a b"
  by simp

lemma pos_max_left: "0 < (a::real) \<Longrightarrow> 0 < max a b"
  by (simp add: less_max_iff_disj)

lemmas posI = mult_pos_pos divide_pos_pos zero_less_power pos_min add_pos_nonneg
  mult_nonneg_nonneg zero_le_power2 real_sqrt_gt_zero rho_pos pos_max_left

lemma perform_constraint_analysis_returns:
  assumes "constraints_ready V_stall BFL LFL CLc CLt CLl cd0 k1 vcr hcr eta cfg"
    and g: "0 < TOGW" and aug: "0 < aug"
  shows "returns (\<lambda>(WS, P). 0 < WS \<and> 0 < P)
           (perform_constraint_analysis TOGW V_stall BFL LFL CLc CLt CLl cd0 k1 vcr hcr eta cfg
                  aug use)"
proof -
  from assms(1) obtain v bfl lfl cc ct cl c0 vc hc et n roc ceil where
    v: "num V_stall = Inr v" "0 < v" and bfl: "num BFL = Inr bfl" "0 < bfl"
    and lfl: "num LFL = Inr lfl" "600 < lfl"
    and cc: "num CLc = Inr cc" "0 < cc" and ct: "num CLt = Inr ct" "0 < ct"
    and cl: "num CLl = Inr cl" "0 < cl" and c0: "num cd0 = Inr c0" "0 < c0"
    and vc: "num vcr = Inr vc" "0 < vc" and hc: "num hcr = Inr hc"
    and et: "num eta = Inr et" "0 < et"
    and n: "num (cfg_get cfg [''propulsion'', ''number_of_engines'']) = Inr n" "n \<noteq> 0" "n \<noteq> 1"
    and roc: "num (cfg_get cfg [''performance_requirements'', ''rate_of_climb_ceiling_fpm'']) = Inr roc"
    and ceil: "num (cfg_get cfg [''mission_requirements'', ''service_ceiling_ft'']) = Inr ceil"
    and k1: "0 \<le> k1"
    unfolding constraints_ready_def
    by (auto dest!: is_posD is_numD split: sum.splits)
  define cce where "cce = (if use then cc * aug else cc)"
  define cte where "cte = (if use then ct * aug else ct)"
  define cle where "cle = (if use then cl * aug else cl)"
  have pos: "0 < cce" "0 < cte" "0 < cle"
    using cc ct cl aug by (simp_all add: cce_def cte_def cle_def)
  have start: "(if use then
              bindE (num CLc) (\<lambda>clmax_clean.
              bindE (num CLt) (\<lambda>clmax_to.
              bindE (num CLl) (\<lambda>clmax_land.
              Inr (PNum (clmax_clean * aug),
                   PNum (clmax_to * aug),
                   PNum (clmax_land * aug)))))
            else Inr (CLc, CLt, CLl))
         = Inr (if use then PNum cce else CLc, if use then PNum cte else CLt,
                if use then PNum cle else CLl)"
    by (simp add: cc ct cl cce_def cte_def cle_def)
  have e: "num (if use then PNum cce else CLc) = Inr cce"
    "num (if use then PNum cte else CLt) = Inr cte"
    "num (if use then PNum cle else CLl) = Inr cle"
    by (simp_all add: cc ct cl cce_def cte_def cle_def)
  have nz: "n - 1 \<noteq> 0" "550 * et \<noteq> 0" "TOGW \<noteq> 0"
    using n et g by simp_all
  show ?thesis
    unfolding perform_constraint_analysis_def start bindE_Inr prod.case
    apply (intro ret_bind_num [OF v(1)] ret_bind_num [OF e(1)] ret_bind_num [OF e(2)]
        ret_bind_num [OF e(3)] ret_bind_num [OF bfl(1)] ret_bind_num [OF lfl(1)]
        ret_bind_num [OF c0(1)] ret_bind_num [OF vc(1)] ret_bind_num [OF hc(1)]
        ret_bind_num [OF et(1)] ret_bind_num [OF n(1)] ret_bind_num [OF roc(1)]
        ret_bind_num [OF ceil(1)] ret_bind_py_div ret_Let ret_Inr)
    apply (rule pos_ne [OF pos(1)])
    apply (rule nz(1))
    apply ((rule pos_ne, hypsubst, intro posI); simp add: pos)
    apply ((rule pos_ne, hypsubst, intro posI); simp add: pos bfl)
    apply ((rule pos_ne, hypsubst, intro posI); simp add: pos v lfl)
    apply ((rule pos_ne, hypsubst, intro posI); simp add: pos v lfl vc g)
    apply ((rule pos_ne, hypsubst, intro posI); simp add: c0 k1)
    apply ((rule pos_ne, hypsubst, intro posI); simp add: pos v lfl vc g c0 k1)
    apply (rule nz(2))
    apply (rule nz(2))
    apply (rule nz(2))
    apply (rule nz(2))
    apply (rule nz(2))
    apply (rule n(2))
    apply (rule n(2))
    apply (rule nz(3))
    apply ((hypsubst, simp only: prod.case, intro conjI posI); simp add: pos v lfl vc g c0 k1 bfl et)
    done
qed

lemma constraint_analysis_returns:
  assumes "sizing_ready mcfg ac" "0 < g"
  shows "returns (\<lambda>(WS, P). 0 < WS \<and> 0 < P) (constraint_analysis ac g)"
proof -
  from assms(1) have cr: "constraints_ready (V_stall_kts ac) (BFL_ft ac) (LFL_ft ac) (CLmax_clean ac)
      (CLmax_TO ac) (CLmax_land ac) (CD0 ac) (K1 ac) (cruise_speed_kts ac) (cruise_alt_ft ac)
      (prop_efficiency (tech ac)) (config ac)"
    by (simp add: sizing_ready_def)
  show ?thesis
  proof (cases "truthy (dep_enabled ac) \<and> truthy (dep_use_for_wing_sizing ac)")
    case True
    with assms(1) obtain aug where aug: "get_lift_augmentation_factor ac True = Inr aug" "0 < aug"
      by (auto simp: sizing_ready_def dest!: returnsD)
    from perform_constraint_analysis_returns [OF cr assms(2) aug(2), of True] True aug(1)
    show ?thesis
      by (simp add: constraint_analysis_def)
  next
    case False
    from perform_constraint_analysis_returns [OF cr assms(2), of 1 False]
    show ?thesis
      unfolding constraint_analysis_def if_not_P [OF False] by simp
  qed
qed

lemma mission_ready_update:
  assumes "mission_ready mcfg ac" "pt_ready pt'"
  shows "mission_ready mcfg (ac \<lparr> powertrain := Some pt', weight_breakdown := w \<rparr>)"
  using assms by (simp add: mission_ready_def)

lemma lift_aug_update:
  "get_lift_augmentation_factor (ac \<lparr> powertrain := p, weight_breakdown := w \<rparr>) b
     = get_lift_augmentation_factor ac b"
  by (simp add: get_lift_augmentation_factor_def)

lemma sizing_ready_update:
  assumes "sizing_ready mcfg ac" "pt_ready pt'"
  shows "sizing_ready mcfg (ac \<lparr> powertrain := Some pt', weight_breakdown := w \<rparr>)"
  using assms by (simp add: sizing_ready_def mission_ready_def lift_aug_update)

lemma ok_battery_sizing:
  assumes "is_num (battery_specific_energy_Wh_kg t)" "is_num (battery_specific_power_kW_kg t)"
    "is_num (battery_DOD t)"
  shows "\<not> isl (battery_sizing t mr)"
  unfolding battery_sizing_def
  by (intro ok_intros ok_num assms)

lemma ok_calculate_OEW:
  assumes "is_num (AR ac)" "powertrain ac = Some pt" "arch pt \<noteq> DualMotorDEP"
  shows "\<not> isl (calculate_OEW ac TOGW S)"
  unfolding calculate_OEW_def
  using assms by (intro ok_intros ok_num) (auto simp: the_powertrain_def get_total_propulsion_weight_def)

lemma sizing_iteration_ready:
  assumes "sizing_ready mcfg ac" "sizing_iteration mcfg prof ac g = Inr (ac', it)"
  shows "sizing_ready mcfg ac'"
proof -
  from sizing_iteration_shape [OF assms(2)] obtain pt P hp pt' w where
    "powertrain ac = Some pt" "size_components pt P hp = Inr pt'"
    "ac' = ac \<lparr> powertrain := Some pt', weight_breakdown := w \<rparr>"
    by blast
  moreover from this assms(1) have "pt_ready pt'"
    by (auto simp: sizing_ready_def mission_ready_def intro: pt_ready_size_components)
  ultimately show ?thesis
    using assms(1) by (simp add: sizing_ready_update)
qed

text \<open>A pass of the loop returns from every positive guess.\<close>

lemma sizing_iteration_total:
  assumes "sizing_ready mcfg ac" "0 < g"
  shows "\<not> isl (sizing_iteration mcfg prof ac g)"
proof -
  from assms have mr: "mission_ready mcfg ac"
    by (simp add: sizing_ready_def)
  from returnsD [OF constraint_analysis_returns [OF assms]] obtain WS P where
    ca: "constraint_analysis ac g = Inr (WS, P)" and WS: "0 < WS"
    by auto
  from WS have sw: "py_div g WS = Inr (g / WS)"
    by (simp add: py_div_def)
  from mr obtain pt where pt: "powertrain ac = Some pt" "pt_ready pt"
    by (auto simp: mission_ready_def split: option.splits)
  from ok_size_components [OF pt(2), of P "Hp_design ac"] obtain pt' where
    sc: "size_components pt P (Hp_design ac) = Inr pt'"
    by (erule not_islE)
  from pt(2) sc have ptr: "pt_ready pt'"
    by (rule pt_ready_size_components)
  let ?ac1 = "ac \<lparr> powertrain := Some pt' \<rparr>"
  have "\<not> isl (calculate_OEW ?ac1 g (g / WS))"
    using assms ptr by (intro ok_calculate_OEW [of _ pt']) (simp_all add: sizing_ready_def pt_ready_def)
  then obtain ac2 OEW where oew: "calculate_OEW ?ac1 g (g / WS) = Inr (ac2, OEW)"
    by (cases "calculate_OEW ?ac1 g (g / WS)") auto
  from calculate_OEW_result [OF oew] obtain w where
    ac2: "ac2 = ac \<lparr> powertrain := Some pt', weight_breakdown := w \<rparr>"
    by auto
  from sizing_ready_update [OF assms(1) ptr, of w] have r2: "sizing_ready mcfg ac2"
    by (simp add: ac2)
  then have m2: "mission_ready mcfg ac2"
    by (simp_all add: sizing_ready_def)
  from r2 have alt: "is_num (cruise_alt_ft ac2)"
    by (simp add: sizing_ready_def constraints_ready_def)
  from ok_simulate_mission [OF m2 create_mission_ready [OF alt], of prof None g "g / WS"]
  obtain mr where sm: "simulate_mission mcfg ac2 (create_mission ac2 prof None) g (g / WS) = Inr mr"
    by (erule not_islE)
  from r2 have "\<not> isl (battery_sizing (tech ac2) mr)"
    by (intro ok_battery_sizing) (simp_all add: sizing_ready_def)
  then obtain bat where bs: "battery_sizing (tech ac2) mr = Inr bat"
    by (erule not_islE)
  from r2 have "is_num (W_payload_lb ac2)"
    by (simp add: sizing_ready_def)
  then obtain payload where pl: "num (W_payload_lb ac2) = Inr payload"
    by (erule is_numE)
  show ?thesis
    by (simp add: sizing_iteration_def ca sw the_powertrain_def pt sc oew sm bs pl Let_def)
qed

lemma fmt_float_num: "is_num v \<Longrightarrow> fmt_float v = Inr ()"
  by (cases v) simp_all

lemma print_header_ready: "sizing_ready mcfg ac \<Longrightarrow> print_header ac = Inr ()"
  by (auto simp: sizing_ready_def mission_ready_def constraints_ready_def print_header_def
      fmt_float_num)

lemma ok_finish_sizing:
  assumes "sizing_ready mcfg ac"
  shows "\<not> isl (finish_sizing tol ac it)"
  unfolding finish_sizing_def
  using assms by (intro ok_intros ok_num) (simp_all add: sizing_ready_def mission_ready_def)

lemma sizing_loop_one_pass:
  assumes "sizing_ready mcfg ac" "0 < g"
  shows "\<exists>ac' it. sizing_loop mcfg prof tol (Suc 0) ac g last_it = Inr (ac', Some it)
           \<and> sizing_iteration mcfg prof ac g = Inr (ac', it)"
proof -
  from sizing_iteration_total [OF assms, of prof] obtain ac1 it where
    it: "sizing_iteration mcfg prof ac g = Inr (ac1, it)"
    by (cases "sizing_iteration mcfg prof ac g") auto
  then show ?thesis
    by simp
qed

text \<open>With a cap of one pass, \<open>size_aircraft\<close> returns.\<close>

lemma size_aircraft_one_pass:
  assumes "sizing_ready mcfg ac"
  shows "\<not> isl (size_aircraft mcfg ac 1 tol parg)"
proof -
  from assms(1) have pt: "powertrain ac \<noteq> None"
    by (auto simp: sizing_ready_def mission_ready_def split: option.splits)
  from sizing_loop_one_pass [OF assms, of 15000 "resolve_profile ac parg" tol None]
  obtain ac' it where
    loop: "sizing_loop mcfg (resolve_profile ac parg) tol (Suc 0) ac 15000 None = Inr (ac', Some it)"
    and pass: "sizing_iteration mcfg (resolve_profile ac parg) ac 15000 = Inr (ac', it)"
    by auto
  from sizing_iteration_ready [OF assms pass] have r: "sizing_ready mcfg ac'" .
  from ok_finish_sizing [OF r, of tol it] pt loop show ?thesis
    by (simp add: size_aircraft_def Let_def print_header_ready [OF assms(1)])
qed

section \<open>The fully electric class\<close>
















subsection \<open>A fully electric run returns for every cap of at least one pass\<close>














section \<open>Convergence of the sizing loop\<close>

lemma relaxed_from_shift:
  assumes "sizing_iteration mcfg prof ac g = Inr (ac1, it0)"
  shows "relaxed_from mcfg prof (ac, g) (Suc k)
           = relaxed_from mcfg prof (ac1, 0.7 * g + 0.3 * it_TOGW_new_lb it0) k"
proof (induction k)
  case 0
  from assms show ?case by simp
next
  case (Suc k)
  let ?F = "\<lambda>(ac_k, TOGW_old).
            bindE (sizing_iteration mcfg prof ac_k TOGW_old) (\<lambda>(ac', it).
            Inr (ac', 0.7 * TOGW_old + 0.3 * it_TOGW_new_lb it))"
  have "relaxed_from mcfg prof (ac, g) (Suc (Suc k))
          = bindE (relaxed_from mcfg prof (ac, g) (Suc k)) ?F"
    by (rule relaxed_from.simps(2))
  also have "\<dots> = bindE (relaxed_from mcfg prof (ac1, 0.7 * g + 0.3 * it_TOGW_new_lb it0) k) ?F"
    by (subst Suc.IH) (rule refl)
  also have "\<dots> = relaxed_from mcfg prof (ac1, 0.7 * g + 0.3 * it_TOGW_new_lb it0) (Suc k)"
    by (rule relaxed_from.simps(2) [symmetric])
  finally show ?case .
qed

lemma sizing_loop_characterisation:
  assumes "relaxed_from mcfg prof (ac, g) K = Inr (acK, gK)"
    and "sizing_iteration mcfg prof acK gK = Inr (ac', it)"
    and "\<forall>k<K. \<exists>a gk a' itk. relaxed_from mcfg prof (ac, g) k = Inr (a, gk)
           \<and> sizing_iteration mcfg prof a gk = Inr (a', itk) \<and> \<not> below (it_error itk) tol"
    and "K < n" and "below (it_error it) tol \<or> Suc K = n"
  shows "sizing_loop mcfg prof tol n ac g last_it = Inr (ac', Some it)"
  using assms
proof (induction K arbitrary: ac g n last_it)
  case 0
  from "0.prems"(4) obtain m where n: "n = Suc m"
    by (cases n) auto
  from "0.prems"(1) have "acK = ac" "gK = g"
    by simp_all
  with "0.prems"(2,5) show ?case
    by (auto simp: n)
next
  case (Suc K)
  from Suc.prems(4) obtain m where n: "n = Suc m"
    by (cases n) auto
  from Suc.prems(3) [rule_format, of 0] obtain a1 it0 where
    first: "sizing_iteration mcfg prof ac g = Inr (a1, it0)" and nc: "\<not> below (it_error it0) tol"
    by auto
  let ?g1 = "0.7 * g + 0.3 * it_TOGW_new_lb it0"
  have shift: "relaxed_from mcfg prof (ac, g) (Suc k) = relaxed_from mcfg prof (a1, ?g1) k" for k
    by (rule relaxed_from_shift [OF first])
  have 1: "relaxed_from mcfg prof (a1, ?g1) K = Inr (acK, gK)"
    using Suc.prems(1) by (simp only: shift)
  have 3: "\<forall>k<K. \<exists>a gk a' itk. relaxed_from mcfg prof (a1, ?g1) k = Inr (a, gk)
           \<and> sizing_iteration mcfg prof a gk = Inr (a', itk) \<and> \<not> below (it_error itk) tol"
  proof (intro allI impI)
    fix k assume "k < K"
    then have "Suc k < Suc K" by simp
    from Suc.prems(3) [rule_format, OF this] show "\<exists>a gk a' itk. relaxed_from mcfg prof (a1, ?g1) k = Inr (a, gk)
           \<and> sizing_iteration mcfg prof a gk = Inr (a', itk) \<and> \<not> below (it_error itk) tol"
      by (simp only: shift)
  qed
  from Suc.prems(4,5) have 4: "K < m" and 5: "below (it_error it) tol \<or> Suc K = m"
    by (auto simp: n)
  from Suc.IH [OF 1 Suc.prems(2) 3 4 5, of "Some it0"] first nc show ?case
    by (simp add: n)
qed

lemma finish_sizing_flags:
  assumes "finish_sizing tol ac it = Inr (ac', r)"
  shows "result_TOGW_lb r = it_TOGW_new_lb it \<and> converged r = below (it_error it) tol
         \<and> result_OEW_lb r = it_OEW_lb it \<and> result_W_fuel_lb r = it_W_fuel_lb it"
  using assms by (auto simp: finish_sizing_def bindE_eq_Inr_iff Let_def)

text \<open>The loop refines the iteration of the specification, for every cap of at least one
  pass: it returns the pass \<open>K\<close> that first meets the tolerance, or the last allowed pass
  when none does, and the flag says which. The guess of pass \<open>K\<close> is \<open>relaxed_guess\<close> at
  \<open>K\<close>, which starts at 15000 and moves by \<open>0.7 * old + 0.3 * new\<close>; the error of a pass is
  the relative change \<open>|new - old| / old\<close>.\<close>

lemma size_aircraft_characterisation:
  assumes "powertrain ac \<noteq> None" and "print_header ac = Inr ()"
    and "relaxed_guess mcfg (resolve_profile ac parg) ac K = Inr (acK, gK)"
    and "sizing_iteration mcfg (resolve_profile ac parg) acK gK = Inr (ac', it)"
    and "\<forall>k<K. \<exists>a gk a' itk. relaxed_guess mcfg (resolve_profile ac parg) ac k = Inr (a, gk)
           \<and> sizing_iteration mcfg (resolve_profile ac parg) a gk = Inr (a', itk)
           \<and> \<not> below (it_error itk) tol"
    and "int K < n" and "below (it_error it) tol \<or> int (Suc K) = n"
  shows "size_aircraft mcfg ac n tol parg = finish_sizing tol ac' it
         \<and> it_error it = np_div \<bar>it_TOGW_new_lb it - gK\<bar> gK
         \<and> (\<forall>ac'' r. finish_sizing tol ac' it = Inr (ac'', r) \<longrightarrow>
               result_TOGW_lb r = it_TOGW_new_lb it \<and> converged r = below (it_error it) tol)"
proof -
  from assms(6,7) have "K < nat n" "below (it_error it) tol \<or> Suc K = nat n"
    by auto
  from sizing_loop_characterisation [OF assms(3) [unfolded relaxed_guess_def] assms(4)
      assms(5) [unfolded relaxed_guess_def] this, of None]
  have "sizing_loop mcfg (resolve_profile ac parg) tol (nat n) ac 15000 None = Inr (ac', Some it)" .
  with assms(1,2) have "size_aircraft mcfg ac n tol parg = finish_sizing tol ac' it"
    by (auto simp: size_aircraft_def Let_def)
  moreover from sizing_iteration_shape [OF assms(4)]
  have "it_error it = np_div \<bar>it_TOGW_new_lb it - gK\<bar> gK"
    by blast
  ultimately show ?thesis
    using finish_sizing_flags by blast
qed

text \<open>
  Claim C6. The loop starts from the literal guess 15000, relaxes the guess by
  \<open>0.7 * old + 0.3 * new\<close>, stops when the relative change is below the tolerance, and
  for every cap of at least one pass returns the last pass with the flag that says
  whether it converged (lemma \<open>size_aircraft_characterisation\<close>). With a cap of zero
  passes or less, however, the cap is reached without meeting the tolerance and the call
  does not return a result with \<open>converged = False\<close>: the statement after the loop reads
  the local \<open>TOGW_new_lb\<close>, which no pass has bound, and \<open>UnboundLocalError\<close> is raised,
  for every aircraft that has a powertrain and whose header can be printed.
\<close>

theorem size_aircraft_no_pass:
  assumes "powertrain ac \<noteq> None" and "print_header ac = Inr ()" and "n \<le> 0"
  shows "size_aircraft mcfg ac n tol parg = Inl UnboundLocalError"
  using assms by (auto simp: size_aircraft_def Let_def)

theorem size_aircraft_no_pass_witness:
  "powertrain (example_aircraft example_tech Conventional) \<noteq> None
   \<and> print_header (example_aircraft example_tech Conventional) = Inr ()
   \<and> size_aircraft example_cfg (example_aircraft example_tech Conventional) 0 0.01 None
       = Inl UnboundLocalError"
proof -
  let ?ac = "example_aircraft example_tech Conventional"
  have a: "powertrain ?ac \<noteq> None"
    by (simp add: example_aircraft_def)
  have b: "print_header ?ac = Inr ()"
    by (simp add: example_aircraft_def print_header_def)
  have c: "(0::int) \<le> 0"
    by simp
  from size_aircraft_no_pass [OF a b c, of example_cfg "0.01" None] a b show ?thesis
    by blast
qed

end
